theory Spec2Isabelle
  imports Main "HOL-Library.Finite_Map"
begin

section \<open>Time\<close>

text \<open>
  Instants (\<^verbatim>\<open>time.Time\<close>) are readings of one clock, counted in nanoseconds; a
  \<^verbatim>\<open>time.Duration\<close> is a number of nanoseconds. \<^verbatim>\<open>t.After(u)\<close> and \<^verbatim>\<open>t.Before(u)\<close>
  are the strict comparisons of the two readings, \<^verbatim>\<open>t.Add(d)\<close> moves a reading by \<open>d\<close>.
\<close>

type_synonym time = int
type_synonym duration = int

definition After :: "time \<Rightarrow> time \<Rightarrow> bool" where
  "After t u = (u < t)"

definition Before :: "time \<Rightarrow> time \<Rightarrow> bool" where
  "Before t u = (t < u)"

definition Add :: "time \<Rightarrow> duration \<Rightarrow> time" where
  "Add t d = t + d"

definition Hour :: duration where
  "Hour = 3600000000000"

section \<open>The standard library the program calls\<close>

text \<open>
  Four services of Go's standard library are used by the code below and are not part of
  the repository: \<^verbatim>\<open>strings.TrimSpace\<close>, \<^verbatim>\<open>time.ParseDuration\<close> (whose fractions go
  through floating point), and the \<^verbatim>\<open>compress/gzip\<close> writer and reader. The model takes
  them as the fields of a record that every function using them receives; nothing is
  assumed about them. A Go string is a sequence of bytes, and so is a \<^verbatim>\<open>[]byte\<close>: both are
  \<^typ>\<open>string\<close> here, and the conversions between them are the identity.

  \<^item> \<open>gzip_Write L level s\<close> is what a \<^verbatim>\<open>gzip.Writer\<close> of that level has put into its
    buffer after \<^verbatim>\<open>Write([]byte(s))\<close> and \<^verbatim>\<open>Close()\<close>;
  \<^item> \<open>gzip_NewReader L b\<close> reads the header of \<open>b\<close> and fails or returns the reader,
    represented by the bytes it still has to decode;
  \<^item> \<open>io_ReadAll L zr\<close> reads that reader to its end and fails or returns the bytes.
\<close>

datatype go_error = GoError string

record golib =
  TrimSpace :: "string \<Rightarrow> string"
  ParseDuration :: "string \<Rightarrow> go_error + duration"
  gzip_Write :: "int \<Rightarrow> string \<Rightarrow> string"
  gzip_NewReader :: "string \<Rightarrow> go_error + string"
  io_ReadAll :: "string \<Rightarrow> go_error + string"

section \<open>Package util\<close>

subsection \<open>GzipEncode and GzipDecode\<close>

definition BestSpeed :: int where
  "BestSpeed = 1"

definition GzipEncode :: "golib \<Rightarrow> string \<Rightarrow> string" where
  "GzipEncode L s = gzip_Write L BestSpeed s"

text \<open>\<^verbatim>\<open>GzipDecode\<close> returns the pair \<^verbatim>\<open>(string, error)\<close>; on either failure the string is empty.\<close>

definition GzipDecode :: "golib \<Rightarrow> string \<Rightarrow> string \<times> go_error option" where
  "GzipDecode L b =
     (case gzip_NewReader L b of
        Inl err \<Rightarrow> ('''', Some err)
      | Inr zr \<Rightarrow>
          (case io_ReadAll L zr of
             Inl err \<Rightarrow> ('''', Some err)
           | Inr out \<Rightarrow> (out, None)))"

subsection \<open>ParseTTL\<close>

definition ParseTTL :: "golib \<Rightarrow> string \<Rightarrow> go_error + duration" where
  "ParseTTL L s =
     (if s = ''1h'' then Inr Hour
      else if s = ''24h'' then Inr (24 * Hour)
      else if s = ''168h'' \<or> s = ''7d'' then Inr (168 * Hour)
      else if s = '''' then Inr (24 * Hour)
      else ParseDuration L s)"

subsection \<open>NewID\<close>

text \<open>
  \<^verbatim>\<open>base64.RawURLEncoding.EncodeToString\<close>: three bytes give four characters of the URL
  alphabet, a rest of two bytes gives three and a rest of one byte gives two; there is no
  padding.
\<close>

definition encodeURL :: string where
  "encodeURL = ''ABCDEFGHIJKLMNOPQRSTUVWXYZabcdefghijklmnopqrstuvwxyz0123456789-_''"

definition enc64 :: "nat \<Rightarrow> char" where
  "enc64 v = encodeURL ! (v mod 64)"

fun EncodeToString :: "string \<Rightarrow> string" where
  "EncodeToString (a # b # c # src) =
     (let val = of_char a * 65536 + of_char b * 256 + of_char c
      in enc64 (val div 262144) # enc64 (val div 4096) # enc64 (val div 64) # enc64 val #
         EncodeToString src)"
| "EncodeToString [a, b] =
     (let val = of_char a * 65536 + of_char b * 256
      in [enc64 (val div 262144), enc64 (val div 4096), enc64 (val div 64)])"
| "EncodeToString [a] =
     (let val = of_char a * 65536
      in [enc64 (val div 262144), enc64 (val div 4096)])"
| "EncodeToString [] = []"

text \<open>
  \<^verbatim>\<open>time.Now().Format("150405.000")\<close>: hour, minute and second of the day in two digits
  each, a dot, and the milliseconds in three digits (truncated), ten characters in all.
  The reading is taken as the nanoseconds of the local wall clock.
\<close>

definition digit :: "nat \<Rightarrow> char" where
  "digit n = char_of (48 + n mod 10)"

definition Format_150405_000 :: "time \<Rightarrow> string" where
  "Format_150405_000 t =
     (let h = nat (t div 3600000000000 mod 24);
          m = nat (t div 60000000000 mod 60);
          s = nat (t div 1000000000 mod 60);
          ms = nat (t div 1000000 mod 1000)
      in [digit (h div 10), digit h, digit (m div 10), digit m, digit (s div 10), digit s,
          CHR ''.'', digit (ms div 100), digit (ms div 10), digit ms])"

text \<open>
  \<^verbatim>\<open>rand.Read(b)\<close> either fills all of \<open>b\<close> (the source of the bytes is a function of the
  position) or fails. \<open>NewID rnd clock n\<close> is \<^verbatim>\<open>NewID(n)\<close> when \<^verbatim>\<open>rand.Read\<close> behaves as
  \<open>rnd\<close> says and the clock, read only on failure, shows \<open>clock\<close>.
\<close>

datatype rand_outcome = RandFilled "nat \<Rightarrow> char" | RandFailed

definition NewID :: "rand_outcome \<Rightarrow> time \<Rightarrow> nat \<Rightarrow> string" where
  "NewID rnd clock n =
     (case rnd of
        RandFailed \<Rightarrow> EncodeToString (Format_150405_000 clock)
      | RandFilled src \<Rightarrow> EncodeToString (map src [0..<n]))"

section \<open>Package model\<close>

record Version =
  ZCode :: string
  VLang :: string
  VAuthor :: string
  At :: time

record Paste =
  ID :: string
  Lang :: string
  Code :: string
  Theme :: string
  ExpiresAt :: time
  Editable :: bool
  EditKey :: string
  Author :: string
  Versions :: "Version list"
  CreatedAt :: time
  UpdatedAt :: time

text \<open>
  The fields \<^verbatim>\<open>Lang\<close> and \<^verbatim>\<open>Author\<close> of \<^verbatim>\<open>model.Version\<close> are \<open>VLang\<close> and \<open>VAuthor\<close>:
  the two structs share these field names. \<open>Paste_zero\<close> is the zero value
  \<^verbatim>\<open>model.Paste{}\<close>.
\<close>

definition Paste_zero :: Paste where
  "Paste_zero =
     \<lparr>ID = '''', Lang = '''', Code = '''', Theme = '''', ExpiresAt = 0, Editable = False,
      EditKey = '''', Author = '''', Versions = [], CreatedAt = 0, UpdatedAt = 0\<rparr>"

section \<open>Package store\<close>

text \<open>
  The state of a \<^verbatim>\<open>Store\<close> is its map \<^verbatim>\<open>items\<close>, a finite map from identifiers to
  pastes. The map holds pointers, but a pointer is only ever made by \<^verbatim>\<open>Put\<close> from its own
  copy of the argument and what it points to is never written again, so the map is a map
  to values. Every method takes the lock around its access to the map, so each of
  \<open>Put\<close>, the lookup of \<open>Get\<close>, \<open>CountActive\<close> and one pass of the janitor is one atomic
  step on this state. The clock reading that \<^verbatim>\<open>time.Now()\<close> returns inside a method is
  an argument.
\<close>

type_synonym Store = "(string, Paste) fmap"

definition Put :: "Paste \<Rightarrow> Store \<Rightarrow> Store" where
  "Put p s = fmupd (ID p) p s"

definition Get :: "Store \<Rightarrow> string \<Rightarrow> time \<Rightarrow> Paste \<times> bool" where
  "Get s ident now =
     (case fmlookup s ident of
        None \<Rightarrow> (Paste_zero, False)
      | Some p \<Rightarrow> if After now (ExpiresAt p) then (Paste_zero, False) else (p, True))"

definition CountActive :: "Store \<Rightarrow> time \<Rightarrow> nat" where
  "CountActive s now =
     fcard (ffilter (\<lambda>k. case fmlookup s k of
                             None \<Rightarrow> False
                           | Some p \<Rightarrow> Before now (ExpiresAt p))
              (fmdom s))"

text \<open>
  One pass of the janitor at the reading \<open>now\<close> deletes every entry that \<open>now\<close> is after.
  The janitor's loop handles what its \<^verbatim>\<open>select\<close> receives: a tick of the ticker, with
  the clock reading taken in that pass, or the closing of \<^verbatim>\<open>quitCh\<close>, which ends it.
\<close>

definition sweep :: "time \<Rightarrow> Store \<Rightarrow> Store" where
  "sweep now s =
     fmfilter (\<lambda>k. case fmlookup s k of
                      None \<Rightarrow> False
                    | Some p \<Rightarrow> \<not> After now (ExpiresAt p)) s"

datatype janitor_event = Tick time | Quit

fun janitor :: "janitor_event list \<Rightarrow> Store \<Rightarrow> Store" where
  "janitor [] s = s"
| "janitor (Tick now # evs) s = janitor evs (sweep now s)"
| "janitor (Quit # evs) s = s"

section \<open>Package httpx\<close>

subsection \<open>Configuration and helpers\<close>

definition Langs :: "string list" where
  "Langs = [''plaintext'', ''go'', ''javascript'', ''typescript'', ''json'', ''yaml'', ''toml'',
            ''python'', ''bash'', ''html'', ''css'', ''sql'', ''markdown'']"

definition Themes :: "string list" where
  "Themes = [''dark'', ''light'']"

record Config =
  PublicBase :: string

definition normalizeLang :: "string \<Rightarrow> string" where
  "normalizeLang lang = (if \<not> (lang \<in> set Langs) then ''plaintext'' else lang)"

text \<open>
  What a handler reads from its \<^verbatim>\<open>*http.Request\<close>: the \<^verbatim>\<open>id\<close> of the route, the query
  parameters (\<^verbatim>\<open>r.URL.Query().Get\<close>, empty when absent), the cookies (\<^verbatim>\<open>r.Cookie\<close> fails
  when there is none of that name), whether \<^verbatim>\<open>r.ParseForm()\<close> succeeds and what
  \<^verbatim>\<open>r.FormValue\<close> then returns, what the JSON decoder makes of the body (nothing when it
  fails), and the header, TLS state and host that \<^verbatim>\<open>makeURL\<close> looks at.
\<close>

record apiReq =
  rCode :: string
  rLang :: string
  rTTL :: string
  rTheme :: string
  rEditable :: bool
  rAuthor :: string

record request =
  URLParam_id :: string
  Query :: "string \<Rightarrow> string"
  Cookie :: "string \<Rightarrow> string option"
  ParseForm_ok :: bool
  FormValue :: "string \<Rightarrow> string"
  DecodeJSON :: "apiReq option"
  Header :: "string \<Rightarrow> string"
  TLS :: bool
  Host :: string

text \<open>\<^verbatim>\<open>strings.TrimRight(s, "/")\<close> and \<^verbatim>\<open>strconv.Itoa\<close>.\<close>

definition TrimRight_slash :: "string \<Rightarrow> string" where
  "TrimRight_slash s = rev (dropWhile (\<lambda>c. c = CHR ''/'') (rev s))"

function utoa :: "nat \<Rightarrow> string" where
  "utoa n = (if n < 10 then [digit n] else utoa (n div 10) @ [digit n])"
  by pat_completeness auto
termination
  by (relation "measure (\<lambda>n. n)") auto

definition Itoa :: "int \<Rightarrow> string" where
  "Itoa i = (if i < 0 then CHR ''-'' # utoa (nat (- i)) else utoa (nat i))"

definition makeURL :: "Config \<Rightarrow> request \<Rightarrow> string \<Rightarrow> string" where
  "makeURL cfg r path =
     (if PublicBase cfg \<noteq> '''' then TrimRight_slash (PublicBase cfg) @ path
      else
        let scheme = (if Header r ''X-Forwarded-Proto'' = ''https'' \<or> TLS r
                      then ''https'' else ''http'')
        in scheme @ ''://'' @ Host r @ path)"

definition canEditPaste :: "request \<Rightarrow> Paste \<Rightarrow> bool" where
  "canEditPaste r p =
     (if \<not> Editable p then False
      else
        let key0 = Query r ''key'';
            key = (if key0 = '''' then
                     (case Cookie r (''npk_'' @ ID p) of Some v \<Rightarrow> v | None \<Rightarrow> key0)
                   else key0)
        in key \<noteq> '''' \<and> key = EditKey p)"

subsection \<open>buildPaste\<close>

text \<open>
  The two errors of \<^verbatim>\<open>buildPaste\<close> are \<^verbatim>\<open>fmt.Errorf("Code darf nicht leer sein")\<close>, here
  \<open>EmptyContent\<close>, and the one for a time-to-live that does not parse, here \<open>InvalidTTL\<close>.
  What \<^verbatim>\<open>buildPaste\<close> takes from its surroundings is the reading \<^verbatim>\<open>now\<close> of the clock
  and, for each of its two calls of \<^verbatim>\<open>NewID\<close>, the outcome of \<^verbatim>\<open>rand.Read\<close> and the clock
  reading of the fallback.
\<close>

datatype build_error = EmptyContent | InvalidTTL

record build_env =
  env_now :: time
  id_rand :: rand_outcome
  id_clock :: time
  key_rand :: rand_outcome
  key_clock :: time

definition buildPaste ::
  "golib \<Rightarrow> build_env \<Rightarrow> string \<Rightarrow> string \<Rightarrow> string \<Rightarrow> string \<Rightarrow> bool \<Rightarrow> string
     \<Rightarrow> build_error + Paste" where
  "buildPaste L E code0 lang0 ttl theme0 editable author =
     (let code = TrimSpace L code0 in
      if code = '''' then Inl EmptyContent
      else
        let lang = normalizeLang lang0;
            theme = (if \<not> (theme0 \<in> set Themes) then ''dark'' else theme0)
        in case ParseTTL L ttl of
             Inl err \<Rightarrow> Inl InvalidTTL
           | Inr dur \<Rightarrow>
               let now = env_now E;
                   ident = NewID (id_rand E) (id_clock E) 8;
                   p = \<lparr>ID = ident, Lang = lang, Code = code, Theme = theme,
                        ExpiresAt = Add now dur,
                        Editable = editable, EditKey = '''', Author = author,
                        Versions = [\<lparr>ZCode = GzipEncode L code, VLang = lang,
                                     VAuthor = author, At = now\<rparr>],
                        CreatedAt = now, UpdatedAt = now\<rparr>
               in Inr (if editable
                       then p\<lparr>EditKey := NewID (key_rand E) (key_clock E) 12\<rparr>
                       else p))"

subsection \<open>Handlers\<close>

text \<open>
  What a handler answers: an error status with its message (\<^verbatim>\<open>http.Error\<close>,
  \<^verbatim>\<open>http.NotFound\<close>), the redirect of a saved edit with the cookies set before it, a
  plain text body, or the JSON object of the edit API (cookies, \<^verbatim>\<open>id\<close>, \<^verbatim>\<open>versions\<close>,
  \<^verbatim>\<open>url\<close>). A cookie is its name, its value and its lifetime. \<open>Panic\<close> is the run-time
  panic of an index out of range.
\<close>

type_synonym cookie = "string \<times> string \<times> duration"

datatype response =
    HttpError nat string
  | SeeOther "cookie list" string
  | PlainText string
  | JSONEdited "cookie list" string nat string
  | Panic

definition NotFound :: response where
  "NotFound = HttpError 404 ''404 page not found''"

definition author_cookie :: "string \<Rightarrow> cookie list" where
  "author_cookie author =
     (if author \<noteq> '''' then [(''np_author'', author, 180 * 24 * Hour)] else [])"

text \<open>
  Between its \<^verbatim>\<open>Get\<close> and its \<^verbatim>\<open>Put\<close> a handler works on its own copy of the paste and
  touches nothing shared. \<open>handleEditSave_local\<close> is that part of \<^verbatim>\<open>handleEditSave\<close>: its
  answer and, when it gets as far as \<^verbatim>\<open>s.Store.Put(p)\<close>, the paste it puts.
\<close>

definition handleEditSave_local ::
  "golib \<Rightarrow> request \<Rightarrow> time \<Rightarrow> Paste \<Rightarrow> response \<times> Paste option" where
  "handleEditSave_local L r now p0 =
     (if \<not> canEditPaste r p0 then (HttpError 403 ''Forbidden (kein Edit-Zugriff)'', None)
      else if \<not> ParseForm_ok r then (HttpError 400 ''Bad form'', None)
      else
        let code = TrimSpace L (FormValue r ''code'');
            lang = normalizeLang (TrimSpace L (FormValue r ''lang''));
            author = TrimSpace L (FormValue r ''author'')
        in if code = '''' then (HttpError 400 ''Code darf nicht leer sein'', None)
           else if Versions p0 = [] then (Panic, None)
           else
             let last = Versions p0 ! (length (Versions p0) - 1);
                 prevCode = fst (GzipDecode L (ZCode last));
                 p1 = (if code \<noteq> prevCode \<or> lang \<noteq> VLang last
                       then p0\<lparr>Versions := Versions p0 @
                              [\<lparr>ZCode = GzipEncode L code, VLang = lang,
                                VAuthor = author, At = now\<rparr>]\<rparr>
                       else p0);
                 p2 = p1\<lparr>Code := code, Lang := lang\<rparr>;
                 p3 = (if author \<noteq> '''' then p2\<lparr>Author := author\<rparr> else p2);
                 p4 = p3\<lparr>UpdatedAt := now\<rparr>;
                 k = Query r ''key'';
                 cookies = author_cookie author @
                   (if k \<noteq> '''' \<and> k = EditKey p4
                    then [(''npk_'' @ ID p4, EditKey p4, 365 * 24 * Hour)] else [])
             in (SeeOther cookies
                   (''/p/'' @ ID p4 @ ''?v='' @ Itoa (int (length (Versions p4)))),
                 Some p4))"

definition handleEditSave ::
  "golib \<Rightarrow> Store \<Rightarrow> request \<Rightarrow> time \<Rightarrow> time \<Rightarrow> response \<times> Store" where
  "handleEditSave L s r t_get now =
     (let (p, ok) = Get s (URLParam_id r) t_get in
      if \<not> ok then (NotFound, s)
      else
        case handleEditSave_local L r now p of
          (resp, None) \<Rightarrow> (resp, s)
        | (resp, Some p') \<Rightarrow> (resp, Put p' s))"

definition handleAPIEdit_local ::
  "golib \<Rightarrow> Config \<Rightarrow> request \<Rightarrow> time \<Rightarrow> Paste \<Rightarrow> response \<times> Paste option" where
  "handleAPIEdit_local L cfg r now p0 =
     (let key = Query r ''key'' in
      if key = '''' then (HttpError 401 ''missing ?key'', None)
      else if \<not> Editable p0 \<or> key \<noteq> EditKey p0 then (HttpError 403 ''invalid key'', None)
      else
        case DecodeJSON r of
          None \<Rightarrow> (HttpError 400 ''invalid JSON'', None)
        | Some req \<Rightarrow>
            let code = TrimSpace L (rCode req) in
            if code = '''' then (HttpError 400 ''code empty'', None)
            else
              let lang = normalizeLang (rLang req);
                  author = TrimSpace L (rAuthor req)
              in if Versions p0 = [] then (Panic, None)
                 else
                   let last = Versions p0 ! (length (Versions p0) - 1);
                       prevCode = fst (GzipDecode L (ZCode last));
                       p1 = (if code \<noteq> prevCode \<or> lang \<noteq> VLang last
                             then p0\<lparr>Versions := Versions p0 @
                                    [\<lparr>ZCode = GzipEncode L code, VLang = lang,
                                      VAuthor = author, At = now\<rparr>]\<rparr>
                             else p0);
                       p2 = p1\<lparr>Code := code, Lang := lang\<rparr>;
                       p3 = (if author \<noteq> '''' then p2\<lparr>Author := author\<rparr> else p2);
                       p4 = p3\<lparr>UpdatedAt := now\<rparr>
                   in (JSONEdited (author_cookie author) (ID p4) (length (Versions p4))
                         (makeURL cfg r
                            (''/p/'' @ ID p4 @ ''?v='' @ Itoa (int (length (Versions p4))))),
                       Some p4))"

definition handleAPIEdit ::
  "golib \<Rightarrow> Config \<Rightarrow> Store \<Rightarrow> request \<Rightarrow> time \<Rightarrow> time \<Rightarrow> response \<times> Store" where
  "handleAPIEdit L cfg s r t_get now =
     (let (p, ok) = Get s (URLParam_id r) t_get in
      if \<not> ok then (NotFound, s)
      else
        case handleAPIEdit_local L cfg r now p of
          (resp, None) \<Rightarrow> (resp, s)
        | (resp, Some p') \<Rightarrow> (resp, Put p' s))"

definition handleRaw :: "golib \<Rightarrow> Store \<Rightarrow> request \<Rightarrow> time \<Rightarrow> response" where
  "handleRaw L s r t_get =
     (let (p, ok) = Get s (URLParam_id r) t_get in
      if \<not> ok then NotFound
      else if length (Versions p) > 0
      then PlainText (fst (GzipDecode L (ZCode (Versions p ! (length (Versions p) - 1)))))
      else PlainText (Code p))"

text \<open>
  \<^verbatim>\<open>strconv.Atoi\<close>: an optional sign and then decimal digits, at least one, with a value
  that fits 64 bits; anything else is an error.
\<close>

definition isDigit :: "char \<Rightarrow> bool" where
  "isDigit c = ((48::nat) \<le> of_char c \<and> (of_char c :: nat) \<le> 57)"

definition decimal :: "string \<Rightarrow> int" where
  "decimal ds = foldl (\<lambda>n ch. n * 10 + (of_char ch - 48)) 0 ds"

definition Atoi :: "string \<Rightarrow> int option" where
  "Atoi s0 =
     (let s = (case s0 of
                 [] \<Rightarrow> s0
               | c # cs \<Rightarrow> if c = CHR ''-'' \<or> c = CHR ''+'' then cs else s0)
      in if s = [] \<or> \<not> list_all isDigit s then None
         else
           let n = (if hd s0 = CHR ''-'' then - decimal s else decimal s)
           in if n < - (2 ^ 63) \<or> 2 ^ 63 \<le> n then None else Some n)"

text \<open>
  The start of \<^verbatim>\<open>handleView\<close>, from the choice of the version (the last one, or the one the
  parameter \<^verbatim>\<open>v\<close> numbers from 1) to the text and language that the rest of the handler
  renders: the index chosen, \<^verbatim>\<open>code\<close> and \<^verbatim>\<open>lang\<close>. There is no result when the
  index is out of range, where the handler panics.
\<close>

definition handleView_version :: "golib \<Rightarrow> request \<Rightarrow> Paste \<Rightarrow> (nat \<times> string \<times> string) option" where
  "handleView_version L r p =
     (let vParam = TrimSpace L (Query r ''v'');
          len = int (length (Versions p));
          vIdx = (if vParam \<noteq> '''' then
                    (case Atoi vParam of
                       Some n \<Rightarrow> if n \<ge> 1 \<and> n \<le> len then n - 1 else len - 1
                     | None \<Rightarrow> len - 1)
                  else len - 1)
      in if vIdx < 0 then None
         else
           let currVer = Versions p ! nat vIdx;
               code = fst (GzipDecode L (ZCode currVer));
               lang = VLang currVer
           in Some (nat vIdx, code, lang))"

subsection \<open>Two calls of handleEditSave at the same time\<close>

text \<open>
  A call of \<^verbatim>\<open>handleEditSave\<close> touches the store twice, in \<^verbatim>\<open>Get\<close> and in \<^verbatim>\<open>Put\<close>, each
  time under the lock; between the two it holds no lock. A call is therefore two steps:
  from \<open>AtGet\<close> it reads the store and either returns or goes on to \<open>AtPut\<close> with its answer
  and the paste it is about to put; from \<open>AtPut\<close> it writes and returns. A schedule says
  which of two calls takes the next step.

  The versions of a paste are a slice, here a list. \<^verbatim>\<open>append\<close> copies a slice whose
  capacity is used up, as is that of the single version \<^verbatim>\<open>buildPaste\<close> makes; with
  capacity to spare it writes the new element into the array that the copy of the paste
  shares with the stored one, beyond the length of the stored one. The list is therefore
  exact wherever calls do not overlap and for the paste with one version; for
  overlapping calls on longer pastes it gives the length of the slice, and the statements
  about such calls speak of lengths only.
\<close>

datatype pc = AtGet | AtPut response Paste | Returned response

record edit_call =
  call_req :: request
  call_t_get :: time
  call_now :: time

definition call_step :: "golib \<Rightarrow> edit_call \<Rightarrow> pc \<Rightarrow> Store \<Rightarrow> pc \<times> Store" where
  "call_step L c at s =
     (case at of
        AtGet \<Rightarrow>
          (let (p, ok) = Get s (URLParam_id (call_req c)) (call_t_get c) in
           if \<not> ok then (Returned NotFound, s)
           else
             case handleEditSave_local L (call_req c) (call_now c) p of
               (resp, None) \<Rightarrow> (Returned resp, s)
             | (resp, Some p') \<Rightarrow> (AtPut resp p', s))
      | AtPut resp p' \<Rightarrow> (Returned resp, Put p' s)
      | Returned resp \<Rightarrow> (Returned resp, s))"

datatype caller = First | Second

fun run_calls ::
  "golib \<Rightarrow> edit_call \<Rightarrow> edit_call \<Rightarrow> caller list \<Rightarrow> pc \<times> pc \<times> Store \<Rightarrow> pc \<times> pc \<times> Store" where
  "run_calls L a b [] cfg = cfg"
| "run_calls L a b (First # sched) (pa, pb, s) =
     (let (pa', s') = call_step L a pa s in run_calls L a b sched (pa', pb, s'))"
| "run_calls L a b (Second # sched) (pa, pb, s) =
     (let (pb', s') = call_step L b pb s in run_calls L a b sched (pa, pb', s'))"

definition accepted :: "response \<Rightarrow> bool" where
  "accepted resp =
     (case resp of
        SeeOther cookies loc \<Rightarrow> True
      | JSONEdited cookies ident n url \<Rightarrow> True
      | _ \<Rightarrow> False)"

section \<open>A reference instance of the library\<close>

text \<open>
  For running the model on concrete requests, an instance of the library record that
  agrees with Go on the inputs used below:
  \<^item> \<open>trim_ascii\<close> trims the six ASCII white-space bytes, as \<^verbatim>\<open>strings.TrimSpace\<close> does on a
    string of ASCII bytes;
  \<^item> \<open>parse_whole_duration\<close> reads a number of whole units (\<^verbatim>\<open>90m\<close>, \<^verbatim>\<open>45s\<close>), the
    fragment of \<^verbatim>\<open>time.ParseDuration\<close> without sign, fraction or second term, and
    rejects every other string;
  \<^item> the writer puts the two bytes of the gzip magic number before the data unchanged,
    and the reader accepts exactly what starts with them; as with gzip itself, a string
    that does not start with the magic number does not decode.
\<close>

definition asciiSpace :: "char \<Rightarrow> bool" where
  "asciiSpace c = (c \<in> set [CHR 0x09, CHR 0x0A, CHR 0x0B, CHR 0x0C, CHR 0x0D, CHR '' ''])"

definition trim_ascii :: "string \<Rightarrow> string" where
  "trim_ascii s = rev (dropWhile asciiSpace (rev (dropWhile asciiSpace s)))"

definition unit_ns :: "string \<Rightarrow> duration option" where
  "unit_ns u =
     (if u = ''ns'' then Some 1
      else if u = ''us'' then Some 1000
      else if u = ''ms'' then Some 1000000
      else if u = ''s'' then Some 1000000000
      else if u = ''m'' then Some 60000000000
      else if u = ''h'' then Some Hour
      else None)"

definition parse_whole_duration :: "string \<Rightarrow> go_error + duration" where
  "parse_whole_duration s =
     (let ds = takeWhile isDigit s; u = dropWhile isDigit s in
      if ds = [] then Inl (GoError ''time: invalid duration'')
      else
        case unit_ns u of
          None \<Rightarrow> Inl (GoError ''time: unknown unit in duration'')
        | Some k \<Rightarrow>
            if decimal ds * k > 2 ^ 63 - 1 then Inl (GoError ''time: invalid duration'')
            else Inr (decimal ds * k))"

definition gzip_magic :: string where
  "gzip_magic = [CHR 0x1F, CHR 0x8B]"

definition framed_NewReader :: "string \<Rightarrow> go_error + string" where
  "framed_NewReader b =
     (if b = [] then Inl (GoError ''EOF'')
      else if take 2 b = gzip_magic then Inr (drop 2 b)
      else Inl (GoError ''gzip: invalid header''))"

definition reflib :: golib where
  "reflib =
     \<lparr>TrimSpace = trim_ascii,
      ParseDuration = parse_whole_duration,
      gzip_Write = (\<lambda>level s. gzip_magic @ s),
      gzip_NewReader = framed_NewReader,
      io_ReadAll = Inr\<rparr>"

subsection \<open>A paste, a store and requests to run the model on\<close>

definition demo_env :: build_env where
  "demo_env =
     \<lparr>env_now = 1000,
      id_rand = RandFilled (\<lambda>i. CHR ''a''), id_clock = 1000,
      key_rand = RandFilled (\<lambda>i. CHR ''k''), key_clock = 1000\<rparr>"

definition demo_paste :: Paste where
  "demo_paste =
     \<lparr>ID = ''YWFhYWFhYWE'', Lang = ''python'', Code = ''print(1)'', Theme = ''dark'',
      ExpiresAt = 1000 + Hour, Editable = True, EditKey = ''a2tra2tra2tra2tr'',
      Author = ''alice'',
      Versions = [\<lparr>ZCode = gzip_magic @ ''print(1)'', VLang = ''python'',
                   VAuthor = ''alice'', At = 1000\<rparr>],
      CreatedAt = 1000, UpdatedAt = 1000\<rparr>"

definition demo_store :: Store where
  "demo_store = Put demo_paste fmempty"

definition demo_request :: "string \<Rightarrow> string \<Rightarrow> string \<Rightarrow> request" where
  "demo_request code lang author =
     \<lparr>URLParam_id = ''YWFhYWFhYWE'',
      Query = (\<lambda>k. if k = ''key'' then ''a2tra2tra2tra2tr'' else ''''),
      Cookie = (\<lambda>k. None),
      ParseForm_ok = True,
      FormValue = (\<lambda>k. if k = ''code'' then code else if k = ''lang'' then lang
                        else if k = ''author'' then author else ''''),
      DecodeJSON = Some \<lparr>rCode = code, rLang = lang, rTTL = '''', rTheme = '''',
                         rEditable = False, rAuthor = author\<rparr>,
      Header = (\<lambda>k. ''''),
      TLS = False,
      Host = ''localhost:8080''\<rparr>"

definition demo_config :: Config where
  "demo_config = \<lparr>PublicBase = ''''\<rparr>"

section \<open>Notions used in the statements\<close>

text \<open>
  \<open>ticks_upto t evs\<close>: every pass of the janitor in \<open>evs\<close> took its clock reading no
  later than \<open>t\<close>, as the passes that precede a read at \<open>t\<close> do.
\<close>

definition ticks_upto :: "time \<Rightarrow> janitor_event list \<Rightarrow> bool" where
  "ticks_upto t evs = list_all (\<lambda>ev. case ev of Tick now \<Rightarrow> now \<le> t | Quit \<Rightarrow> True) evs"

text \<open>
  \<open>edited L p code lang author now\<close> is the paste that lines 305 to 325 of
  \<^verbatim>\<open>handleEditSave\<close> and lines 441 to 458 of \<^verbatim>\<open>handleAPIEdit\<close> make of \<open>p\<close>; the lemmas
  below show that this is what the two handlers put.
\<close>

definition edited :: "golib \<Rightarrow> Paste \<Rightarrow> string \<Rightarrow> string \<Rightarrow> string \<Rightarrow> time \<Rightarrow> Paste" where
  "edited L p code lang author now =
     p\<lparr>Versions :=
         (if code \<noteq> fst (GzipDecode L (ZCode (last (Versions p)))) \<or>
             lang \<noteq> VLang (last (Versions p))
          then Versions p @
               [\<lparr>ZCode = GzipEncode L code, VLang = lang, VAuthor = author, At = now\<rparr>]
          else Versions p),
       Code := code,
       Lang := lang,
       Author := (if author \<noteq> '''' then author else Author p),
       UpdatedAt := now\<rparr>"

text \<open>
  The schedules of two calls in which each call takes its two steps: in the first two
  one call returns before the other starts, in the other four both calls read before
  either writes.
\<close>

definition schedules :: "caller list list" where
  "schedules =
     [[First, First, Second, Second], [Second, Second, First, First],
      [First, Second, First, Second], [First, Second, Second, First],
      [Second, First, First, Second], [Second, First, Second, First]]"

definition serial :: "caller list \<Rightarrow> bool" where
  "serial sched =
     (sched = [First, First, Second, Second] \<or> sched = [Second, Second, First, First])"

definition returned_ok :: "pc \<Rightarrow> bool" where
  "returned_ok at = (case at of Returned resp \<Rightarrow> accepted resp | _ \<Rightarrow> False)"

subsection \<open>More concrete inputs\<close>

definition demo_call :: "string \<Rightarrow> string \<Rightarrow> edit_call" where
  "demo_call code author =
     \<lparr>call_req = demo_request code ''python'' author, call_t_get = 2000, call_now = 2001\<rparr>"

definition demo_corrupt :: Paste where
  "demo_corrupt =
     demo_paste\<lparr>Versions := [\<lparr>ZCode = ''this is not gzip data'', VLang = ''python'',
                               VAuthor = ''alice'', At = 1000\<rparr>]\<rparr>"

text \<open>
  Runs of the handlers on the store that holds \<open>demo_paste\<close>: an edit to new code and an
  edit that sends the stored code again, each through the form and through the API, and
  two calls of the form handler that both read before either writes.
\<close>

definition demo_saved :: "response \<times> Store" where
  "demo_saved =
     handleEditSave reflib demo_store (demo_request ''print(2)'' ''python'' ''bob'') 2000 2001"

definition demo_api_saved :: "response \<times> Store" where
  "demo_api_saved =
     handleAPIEdit reflib demo_config demo_store
       (demo_request ''print(2)'' ''python'' ''bob'') 2000 2001"

definition demo_resaved :: "response \<times> Store" where
  "demo_resaved =
     handleEditSave reflib demo_store (demo_request ''print(1)'' ''python'' ''bob'') 2000 2001"

definition demo_api_resaved :: "response \<times> Store" where
  "demo_api_resaved =
     handleAPIEdit reflib demo_config demo_store
       (demo_request ''print(1)'' ''python'' '''') 2000 2001"

definition demo_race :: "pc \<times> pc \<times> Store" where
  "demo_race =
     run_calls reflib (demo_call ''print(2)'' ''bob'') (demo_call ''print(3)'' ''carol'')
       [First, Second, First, Second] (AtGet, AtGet, demo_store)"

definition demo_serial :: "pc \<times> pc \<times> Store" where
  "demo_serial =
     run_calls reflib (demo_call ''print(2)'' ''bob'') (demo_call ''print(3)'' ''carol'')
       [First, First, Second, Second] (AtGet, AtGet, demo_store)"

text \<open>
  For a call of \<^verbatim>\<open>handleEditSave\<close>: the code it submits, the paste it puts when the paste
  it read is \<open>p\<close>, and what makes it a call that the handler accepts for \<open>p\<close>: it asks
  for the identifier of \<open>p\<close> while \<open>p\<close> has not expired, it may edit \<open>p\<close>, its form parses
  and its code is not empty.
\<close>

definition call_code :: "golib \<Rightarrow> edit_call \<Rightarrow> string" where
  "call_code L c = TrimSpace L (FormValue (call_req c) ''code'')"

definition call_edit :: "golib \<Rightarrow> edit_call \<Rightarrow> Paste \<Rightarrow> Paste" where
  "call_edit L c p =
     edited L p (call_code L c)
       (normalizeLang (TrimSpace L (FormValue (call_req c) ''lang'')))
       (TrimSpace L (FormValue (call_req c) ''author'')) (call_now c)"

definition edit_ready :: "golib \<Rightarrow> Paste \<Rightarrow> edit_call \<Rightarrow> bool" where
  "edit_ready L p c =
     (URLParam_id (call_req c) = ID p \<and> \<not> After (call_t_get c) (ExpiresAt p) \<and>
      canEditPaste (call_req c) p \<and> ParseForm_ok (call_req c) \<and> call_code L c \<noteq> '''')"

section \<open>Lemmas about the store\<close>

lemma Get_found: "Get s k t = (p, True) \<Longrightarrow> fmlookup s k = Some p \<and> \<not> After t (ExpiresAt p)"
  by (auto simp: Get_def split: option.splits if_splits)

lemma Get_lookup:
  "fmlookup s k = Some p \<Longrightarrow>
     Get s k t = (if After t (ExpiresAt p) then (Paste_zero, False) else (p, True))"
  by (simp add: Get_def)

lemma Get_Put_same:
  "Get (Put p s) (ID p) t = (if After t (ExpiresAt p) then (Paste_zero, False) else (p, True))"
  by (simp add: Get_def Put_def)

lemma fmlookup_sweep:
  "fmlookup (sweep now s) k =
     (case fmlookup s k of
        None \<Rightarrow> None
      | Some p \<Rightarrow> if After now (ExpiresAt p) then None else Some p)"
  by (simp add: sweep_def split: option.splits)

lemma Get_sweep: "now \<le> t \<Longrightarrow> Get (sweep now s) k t = Get s k t"
  by (auto simp: Get_def fmlookup_sweep After_def split: option.splits)

lemma Get_janitor: "ticks_upto t evs \<Longrightarrow> Get (janitor evs s) k t = Get s k t"
proof (induction evs s rule: janitor.induct)
  case (1 s)
  show ?case by simp
next
  case (2 now evs s)
  then show ?case by (simp add: ticks_upto_def Get_sweep)
next
  case (3 evs s)
  show ?case by simp
qed

section \<open>Lemmas about identifiers\<close>

lemma EncodeToString_Nil_iff: "EncodeToString s = [] \<longleftrightarrow> s = []"
  by (cases s rule: EncodeToString.cases) (simp_all add: Let_def)

lemma NewID_nonempty: "0 < n \<Longrightarrow> NewID rnd clock n \<noteq> []"
  by (cases rnd) (simp_all add: NewID_def EncodeToString_Nil_iff Format_150405_000_def Let_def)

section \<open>What the edit handlers put\<close>

lemma edited_frame:
  "ID (edited L p code lang author now) = ID p"
  "ExpiresAt (edited L p code lang author now) = ExpiresAt p"
  "Editable (edited L p code lang author now) = Editable p"
  "EditKey (edited L p code lang author now) = EditKey p"
  "CreatedAt (edited L p code lang author now) = CreatedAt p"
  "Theme (edited L p code lang author now) = Theme p"
  by (simp_all add: edited_def)

lemma edited_fields:
  "Code (edited L p code lang author now) = code"
  "Lang (edited L p code lang author now) = lang"
  "UpdatedAt (edited L p code lang author now) = now"
  "Author (edited L p code lang author now) = (if author \<noteq> '''' then author else Author p)"
  by (simp_all add: edited_def)

lemma edited_Versions:
  "Versions (edited L p code lang author now) =
     (if code \<noteq> fst (GzipDecode L (ZCode (last (Versions p)))) \<or>
         lang \<noteq> VLang (last (Versions p))
      then Versions p @
           [\<lparr>ZCode = GzipEncode L code, VLang = lang, VAuthor = author, At = now\<rparr>]
      else Versions p)"
  by (simp add: edited_def)

lemma canEditPaste_edited: "canEditPaste r (edited L p code lang author now) = canEditPaste r p"
  by (simp add: canEditPaste_def edited_frame)

lemma handleEditSave_local_ok:
  assumes "canEditPaste r p" and "ParseForm_ok r"
    and "TrimSpace L (FormValue r ''code'') \<noteq> ''''" and "Versions p \<noteq> []"
  shows "accepted (fst (handleEditSave_local L r now p)) \<and>
         snd (handleEditSave_local L r now p) =
           Some (edited L p (TrimSpace L (FormValue r ''code''))
                   (normalizeLang (TrimSpace L (FormValue r ''lang'')))
                   (TrimSpace L (FormValue r ''author'')) now)"
  using assms
  by (simp add: handleEditSave_local_def Let_def accepted_def last_conv_nth edited_def)

lemma handleEditSave_local_rejects:
  assumes "\<not> canEditPaste r p \<or> \<not> ParseForm_ok r \<or>
           TrimSpace L (FormValue r ''code'') = '''' \<or> Versions p = []"
  shows "\<not> accepted (fst (handleEditSave_local L r now p)) \<and>
         snd (handleEditSave_local L r now p) = None"
  using assms
  by (auto simp: handleEditSave_local_def accepted_def Let_def)

lemma handleAPIEdit_local_ok:
  assumes "Query r ''key'' \<noteq> ''''" and "Editable p" and "Query r ''key'' = EditKey p"
    and "DecodeJSON r = Some req"
    and "TrimSpace L (rCode req) \<noteq> ''''" and "Versions p \<noteq> []"
  shows "accepted (fst (handleAPIEdit_local L cfg r now p)) \<and>
         snd (handleAPIEdit_local L cfg r now p) =
           Some (edited L p (TrimSpace L (rCode req)) (normalizeLang (rLang req))
                   (TrimSpace L (rAuthor req)) now)"
  using assms
  by (simp add: handleAPIEdit_local_def Let_def accepted_def last_conv_nth edited_def)

lemma handleAPIEdit_local_rejects:
  assumes "Query r ''key'' = '''' \<or> \<not> Editable p \<or> Query r ''key'' \<noteq> EditKey p \<or>
           DecodeJSON r = None \<or>
           (\<exists>req. DecodeJSON r = Some req \<and> TrimSpace L (rCode req) = '''') \<or> Versions p = []"
  shows "\<not> accepted (fst (handleAPIEdit_local L cfg r now p)) \<and>
         snd (handleAPIEdit_local L cfg r now p) = None"
  using assms
  by (auto simp: handleAPIEdit_local_def accepted_def Let_def split: option.splits)

lemma handleEditSave_accepted:
  assumes "handleEditSave L s r tg now = (resp, s')" and "accepted resp"
  shows "\<exists>p. Get s (URLParam_id r) tg = (p, True) \<and> canEditPaste r p \<and> ParseForm_ok r \<and>
             TrimSpace L (FormValue r ''code'') \<noteq> '''' \<and> Versions p \<noteq> [] \<and>
             s' = Put (edited L p (TrimSpace L (FormValue r ''code''))
                         (normalizeLang (TrimSpace L (FormValue r ''lang'')))
                         (TrimSpace L (FormValue r ''author'')) now) s"
proof -
  obtain p ok where g: "Get s (URLParam_id r) tg = (p, ok)"
    by (cases "Get s (URLParam_id r) tg")
  have ok: ok
    using assms g by (auto simp: handleEditSave_def NotFound_def accepted_def split: if_splits)
  let ?loc = "handleEditSave_local L r now p"
  have h: "handleEditSave L s r tg now =
             (case ?loc of (resp, None) \<Rightarrow> (resp, s) | (resp, Some p') \<Rightarrow> (resp, Put p' s))"
    using g ok by (simp add: handleEditSave_def)
  have conds: "canEditPaste r p \<and> ParseForm_ok r \<and>
               TrimSpace L (FormValue r ''code'') \<noteq> '''' \<and> Versions p \<noteq> []"
  proof (rule ccontr)
    assume "\<not> ?thesis"
    then have "\<not> accepted (fst ?loc) \<and> snd ?loc = None"
      using handleEditSave_local_rejects [of r p L now] by blast
    then show False
      using assms h by (cases ?loc) auto
  qed
  then have "snd ?loc =
               Some (edited L p (TrimSpace L (FormValue r ''code''))
                       (normalizeLang (TrimSpace L (FormValue r ''lang'')))
                       (TrimSpace L (FormValue r ''author'')) now)"
    using handleEditSave_local_ok [of r p L now] by blast
  then have "s' = Put (edited L p (TrimSpace L (FormValue r ''code''))
                         (normalizeLang (TrimSpace L (FormValue r ''lang'')))
                         (TrimSpace L (FormValue r ''author'')) now) s"
    using assms(1) h by (cases ?loc) auto
  with g ok conds show ?thesis by (intro exI [of _ p]) simp
qed

lemma handleAPIEdit_accepted:
  assumes "handleAPIEdit L cfg s r tg now = (resp, s')" and "accepted resp"
  shows "\<exists>p req. Get s (URLParam_id r) tg = (p, True) \<and> Editable p \<and>
             Query r ''key'' \<noteq> '''' \<and> Query r ''key'' = EditKey p \<and>
             DecodeJSON r = Some req \<and>
             TrimSpace L (rCode req) \<noteq> '''' \<and> Versions p \<noteq> [] \<and>
             s' = Put (edited L p (TrimSpace L (rCode req)) (normalizeLang (rLang req))
                         (TrimSpace L (rAuthor req)) now) s"
proof -
  obtain p ok where g: "Get s (URLParam_id r) tg = (p, ok)"
    by (cases "Get s (URLParam_id r) tg")
  have ok: ok
    using assms g by (auto simp: handleAPIEdit_def NotFound_def accepted_def split: if_splits)
  let ?loc = "handleAPIEdit_local L cfg r now p"
  have h: "handleAPIEdit L cfg s r tg now =
             (case ?loc of (resp, None) \<Rightarrow> (resp, s) | (resp, Some p') \<Rightarrow> (resp, Put p' s))"
    using g ok by (simp add: handleAPIEdit_def)
  have acc: "accepted (fst ?loc)"
    using assms h by (cases ?loc) (auto split: option.splits)
  have conds: "Query r ''key'' \<noteq> '''' \<and> Editable p \<and> Query r ''key'' = EditKey p \<and>
               Versions p \<noteq> [] \<and>
               (\<exists>req. DecodeJSON r = Some req \<and> TrimSpace L (rCode req) \<noteq> '''')"
  proof (rule ccontr)
    assume "\<not> ?thesis"
    then have "Query r ''key'' = '''' \<or> \<not> Editable p \<or> Query r ''key'' \<noteq> EditKey p \<or>
           DecodeJSON r = None \<or>
           (\<exists>req. DecodeJSON r = Some req \<and> TrimSpace L (rCode req) = '''') \<or> Versions p = []"
      by (cases "DecodeJSON r") auto
    then have "\<not> accepted (fst ?loc)"
      using handleAPIEdit_local_rejects [of r p L cfg now] by blast
    with acc show False by simp
  qed
  then obtain req where req: "DecodeJSON r = Some req" "TrimSpace L (rCode req) \<noteq> ''''"
    by blast
  have "snd ?loc =
          Some (edited L p (TrimSpace L (rCode req)) (normalizeLang (rLang req))
                  (TrimSpace L (rAuthor req)) now)"
    using handleAPIEdit_local_ok [of r p req L cfg now] conds req by blast
  then have "s' = Put (edited L p (TrimSpace L (rCode req)) (normalizeLang (rLang req))
                         (TrimSpace L (rAuthor req)) now) s"
    using assms(1) h by (cases ?loc) auto
  with g ok conds req show ?thesis by (intro exI [of _ p] exI [of _ req]) auto
qed

section \<open>Lemmas about counting and the janitor\<close>

lemma CountActive_card:
  "CountActive s now = card {k. \<exists>q. fmlookup s k = Some q \<and> now < ExpiresAt q}"
proof -
  have "fset (ffilter (\<lambda>k. case fmlookup s k of None \<Rightarrow> False
                            | Some p \<Rightarrow> Before now (ExpiresAt p)) (fmdom s)) =
        {k. \<exists>q. fmlookup s k = Some q \<and> now < ExpiresAt q}"
    by (auto simp: Before_def fmlookup_dom_iff split: option.splits)
  then show ?thesis
    by (simp add: CountActive_def fcard.rep_eq)
qed

lemma finite_active: "finite {k. \<exists>q. fmlookup s k = Some q \<and> now < ExpiresAt q}"
proof (rule finite_subset)
  show "{k. \<exists>q. fmlookup s k = Some q \<and> now < ExpiresAt q} \<subseteq> fset (fmdom s)"
    by (auto simp: fmlookup_dom_iff)
  show "finite (fset (fmdom s))" by simp
qed

lemma CountActive_split:
  assumes "fmlookup s ident = Some p"
  shows "CountActive s now =
           CountActive (fmdrop ident s) now + (if now < ExpiresAt p then 1 else 0)"
proof -
  let ?A = "{k. \<exists>q. fmlookup s k = Some q \<and> now < ExpiresAt q}"
  let ?B = "{k. \<exists>q. fmlookup (fmdrop ident s) k = Some q \<and> now < ExpiresAt q}"
  have fin: "finite ?B" by (rule finite_active)
  have notin: "ident \<notin> ?B" by simp
  show ?thesis
  proof (cases "now < ExpiresAt p")
    case True
    then have "?A = insert ident ?B"
      using assms by (auto split: if_splits)
    then have "card ?A = Suc (card ?B)"
      using fin notin by simp
    with True show ?thesis by (simp add: CountActive_card)
  next
    case False
    then have "?A = ?B"
      using assms by (auto split: if_splits)
    with False show ?thesis by (simp add: CountActive_card)
  qed
qed

lemma Get_janitor_absent: "\<not> snd (Get s k t) \<Longrightarrow> \<not> snd (Get (janitor evs s) k t)"
proof (induction evs s rule: janitor.induct)
  case (1 s)
  then show ?case by simp
next
  case (2 now evs s)
  have "\<not> snd (Get (sweep now s) k t)"
    using "2.prems" by (auto simp: Get_def fmlookup_sweep split: option.splits if_splits)
  then show ?case using "2.IH" by simp
next
  case (3 evs s)
  then show ?case by simp
qed

lemma buildPaste_Inr:
  assumes "buildPaste L E code lang ttl theme editable author = Inr p"
  shows "TrimSpace L code \<noteq> '''' \<and>
         (\<exists>d. ParseTTL L ttl = Inr d \<and> ExpiresAt p = Add (env_now E) d) \<and>
         CreatedAt p = env_now E \<and> UpdatedAt p = env_now E \<and>
         ID p = NewID (id_rand E) (id_clock E) 8 \<and>
         EditKey p = (if editable then NewID (key_rand E) (key_clock E) 12 else '''') \<and>
         Editable p = editable \<and>
         Versions p = [\<lparr>ZCode = GzipEncode L (TrimSpace L code), VLang = normalizeLang lang,
                         VAuthor = author, At = env_now E\<rparr>]"
  using assms
  by (cases "ParseTTL L ttl") (auto simp: buildPaste_def Let_def split: if_splits)

section \<open>The claims\<close>

text \<open>
  C1, as the code has it. For a paste that \<^verbatim>\<open>buildPaste\<close> made at the reading \<open>env_now E\<close>
  with a time-to-live that parses to \<open>t\<close> and that was put into the store, and for any
  passes of the janitor since: a \<^verbatim>\<open>Get\<close> at a reading \<open>now\<close> no later than the creation
  time plus \<open>t\<close> returns the paste, the instant of expiry itself included, and a \<^verbatim>\<open>Get\<close> at
  any later reading reports that there is none, whatever the janitor has or has not
  removed.
\<close>

theorem Get_until_expiry:
  assumes "buildPaste L E code lang ttl theme editable author = Inr p"
    and "ticks_upto now evs"
  shows "\<exists>t. ParseTTL L ttl = Inr t \<and> CreatedAt p = env_now E \<and>
             Get (janitor evs (Put p s)) (ID p) now =
               (if now \<le> Add (CreatedAt p) t then (p, True) else (Paste_zero, False)) \<and>
             (\<forall>evs'. Add (CreatedAt p) t < now \<longrightarrow>
                      Get (janitor evs' (Put p s)) (ID p) now = (Paste_zero, False))"
proof -
  from buildPaste_Inr [OF assms(1)] obtain t where
    t: "ParseTTL L ttl = Inr t" "ExpiresAt p = Add (env_now E) t" "CreatedAt p = env_now E"
    by blast
  have main: "Get (janitor evs (Put p s)) (ID p) now =
                (if now \<le> Add (CreatedAt p) t then (p, True) else (Paste_zero, False))"
    using assms(2) t by (auto simp: Get_janitor Get_Put_same After_def)
  have late: "Get (janitor evs' (Put p s)) (ID p) now = (Paste_zero, False)"
    if "Add (CreatedAt p) t < now" for evs'
  proof -
    have "\<not> snd (Get (Put p s) (ID p) now)"
      using that t by (simp add: Get_Put_same After_def)
    then have "\<not> snd (Get (janitor evs' (Put p s)) (ID p) now)"
      by (rule Get_janitor_absent)
    then show ?thesis
      by (auto simp: Get_def split: option.splits if_splits)
  qed
  from t main late show ?thesis by blast
qed

text \<open>
  C4. \<^verbatim>\<open>canEditPaste\<close> holds exactly when the paste is editable and the token presented,
  which is the query parameter \<^verbatim>\<open>key\<close> or, when that is empty, the cookie of the paste, is
  not empty and equals the edit key; so it fails for an empty token, for a wrong token
  and for a paste that is not editable.
\<close>

theorem canEditPaste_iff:
  assumes "token = (if Query r ''key'' = ''''
                    then (case Cookie r (''npk_'' @ ID p) of Some v \<Rightarrow> v | None \<Rightarrow> '''')
                    else Query r ''key'')"
  shows "(canEditPaste r p \<longleftrightarrow> Editable p \<and> token \<noteq> '''' \<and> token = EditKey p) \<and>
         (token = '''' \<longrightarrow> \<not> canEditPaste r p) \<and>
         (token \<noteq> EditKey p \<longrightarrow> \<not> canEditPaste r p) \<and>
         (\<not> Editable p \<longrightarrow> \<not> canEditPaste r p)"
  using assms by (auto simp: canEditPaste_def Let_def split: option.splits)

text \<open>
  C10. At the reading that equals \<open>ExpiresAt\<close> of a stored paste, \<^verbatim>\<open>Get\<close> still returns
  the paste and \<^verbatim>\<open>CountActive\<close> does not count it: \<^verbatim>\<open>Get\<close> finds a stored paste exactly
  up to and including that reading, \<^verbatim>\<open>CountActive\<close> counts it exactly before that
  reading, and what \<^verbatim>\<open>CountActive\<close> returns is the number of identifiers whose paste
  expires strictly later than now.
\<close>

theorem Get_CountActive_boundary:
  assumes "fmlookup s ident = Some p"
  shows "Get s ident (ExpiresAt p) = (p, True) \<and>
         CountActive s (ExpiresAt p) = CountActive (fmdrop ident s) (ExpiresAt p) \<and>
         snd (Get s ident now) = (now \<le> ExpiresAt p) \<and>
         CountActive s now =
           CountActive (fmdrop ident s) now + (if now < ExpiresAt p then 1 else 0) \<and>
         CountActive s now = card {k. \<exists>q. fmlookup s k = Some q \<and> now < ExpiresAt q}"
  using assms CountActive_split [OF assms, of now] CountActive_split [OF assms, of "ExpiresAt p"]
  by (auto simp: Get_lookup After_def CountActive_card)

section \<open>The model on concrete inputs\<close>

lemma demo_NewID:
  "NewID (RandFilled (\<lambda>i. CHR ''a'')) c 8 = ''YWFhYWFhYWE''"
  "NewID (RandFilled (\<lambda>i. CHR ''k'')) c 12 = ''a2tra2tra2tra2tr''"
  by (simp_all add: NewID_def enc64_def encodeURL_def Let_def upt_rec)

lemma demo_trim:
  "trim_ascii ''  print(1) '' = ''print(1)''"
  "trim_ascii ''print(2)'' = ''print(2)''"
  "trim_ascii ''print(3)'' = ''print(3)''"
  "trim_ascii ''print(1)'' = ''print(1)''"
  "trim_ascii ''python'' = ''python''"
  "trim_ascii ''bob'' = ''bob''"
  "trim_ascii ''carol'' = ''carol''"
  "trim_ascii '''' = ''''"
  "trim_ascii ''   '' = ''''"
  by (simp_all add: trim_ascii_def asciiSpace_def)

lemma demo_build:
  "buildPaste reflib demo_env ''  print(1) '' ''python'' ''1h'' ''dark'' True ''alice'' =
     Inr demo_paste"
  by (simp add: buildPaste_def reflib_def demo_env_def demo_paste_def demo_trim demo_NewID
      normalizeLang_def Langs_def Themes_def ParseTTL_def GzipEncode_def Add_def Let_def)

lemma demo_lookup: "fmlookup demo_store ''YWFhYWFhYWE'' = Some demo_paste"
  by (simp add: demo_store_def Put_def demo_paste_def)

theorem Get_until_expiry_witness:
  "buildPaste reflib demo_env ''  print(1) '' ''python'' ''1h'' ''dark'' True ''alice'' =
     Inr demo_paste \<and>
   ticks_upto 5000 [Tick 3000, Tick 4000] \<and>
   Get (janitor [Tick 3000, Tick 4000] (Put demo_paste fmempty)) (ID demo_paste) 5000 =
     (demo_paste, True) \<and>
   Get (janitor [Tick (Hour + 2000)] (Put demo_paste fmempty)) (ID demo_paste) (Hour + 3000) =
     (Paste_zero, False)"
proof -
  have tk: "ticks_upto 5000 [Tick 3000, Tick 4000]"
    by (simp add: ticks_upto_def)
  have tk': "ticks_upto (Hour + 3000) [Tick (Hour + 2000)]"
    by (simp add: ticks_upto_def)
  have ttl: "ParseTTL reflib ''1h'' = Inr Hour"
    by (simp add: ParseTTL_def)
  have c: "CreatedAt demo_paste = 1000"
    by (simp add: demo_paste_def)
  from Get_until_expiry [OF demo_build tk, of fmempty]
  have 1: "Get (janitor [Tick 3000, Tick 4000] (Put demo_paste fmempty)) (ID demo_paste) 5000 =
             (demo_paste, True)"
    by (simp add: ttl c Add_def Hour_def)
  from Get_until_expiry [OF demo_build tk', of fmempty]
  have 2: "Get (janitor [Tick (Hour + 2000)] (Put demo_paste fmempty)) (ID demo_paste)
             (Hour + 3000) = (Paste_zero, False)"
    by (simp add: ttl c Add_def Hour_def)
  from demo_build tk 1 2 show ?thesis by simp
qed

text \<open>
  C1 as stated fails at the instant of expiry: a paste made at the reading 1000 with the
  time-to-live \<^verbatim>\<open>1h\<close> is still returned by a \<^verbatim>\<open>Get\<close> at the reading 1000 plus one hour.
\<close>

theorem Get_at_expiry_counterexample:
  "buildPaste reflib demo_env ''  print(1) '' ''python'' ''1h'' ''dark'' True ''alice'' =
     Inr demo_paste \<and>
   ParseTTL reflib ''1h'' = Inr Hour \<and>
   CreatedAt demo_paste = 1000 \<and>
   Get (Put demo_paste fmempty) (ID demo_paste) (Add 1000 Hour) = (demo_paste, True)"
  by (simp add: demo_build ParseTTL_def Get_Put_same After_def Add_def) (simp add: demo_paste_def)

theorem canEditPaste_iff_witness:
  "canEditPaste (demo_request ''print(2)'' ''python'' ''bob'') demo_paste \<and>
   \<not> canEditPaste ((demo_request ''print(2)'' ''python'' ''bob'')\<lparr>Query := \<lambda>k. ''''\<rparr>) demo_paste \<and>
   \<not> canEditPaste ((demo_request ''print(2)'' ''python'' ''bob'')\<lparr>Query := \<lambda>k. ''guess''\<rparr>)
        demo_paste \<and>
   \<not> canEditPaste (demo_request ''print(2)'' ''python'' ''bob'') (demo_paste\<lparr>Editable := False\<rparr>)"
proof -
  let ?r = "demo_request ''print(2)'' ''python'' ''bob''"
  have 1: "canEditPaste ?r demo_paste"
    using canEditPaste_iff [of "''a2tra2tra2tra2tr''" ?r demo_paste]
    by (simp add: demo_request_def demo_paste_def)
  have 2: "\<not> canEditPaste (?r\<lparr>Query := \<lambda>k. ''''\<rparr>) demo_paste"
    using canEditPaste_iff [of "''''" "?r\<lparr>Query := \<lambda>k. ''''\<rparr>" demo_paste]
    by (simp add: demo_request_def)
  have 3: "\<not> canEditPaste (?r\<lparr>Query := \<lambda>k. ''guess''\<rparr>) demo_paste"
    using canEditPaste_iff [of "''guess''" "?r\<lparr>Query := \<lambda>k. ''guess''\<rparr>" demo_paste]
    by (simp add: demo_request_def demo_paste_def)
  have 4: "\<not> canEditPaste ?r (demo_paste\<lparr>Editable := False\<rparr>)"
    using canEditPaste_iff [of "''a2tra2tra2tra2tr''" ?r "demo_paste\<lparr>Editable := False\<rparr>"]
    by (simp add: demo_request_def demo_paste_def)
  from 1 2 3 4 show ?thesis by simp
qed

theorem Get_CountActive_boundary_witness:
  "fmlookup demo_store ''YWFhYWFhYWE'' = Some demo_paste \<and>
   Get demo_store ''YWFhYWFhYWE'' (1000 + Hour) = (demo_paste, True) \<and>
   CountActive demo_store (1000 + Hour) = 0 \<and>
   CountActive demo_store (999 + Hour) = 1 \<and>
   \<not> snd (Get demo_store ''YWFhYWFhYWE'' (1001 + Hour))"
proof -
  have e: "ExpiresAt demo_paste = 1000 + Hour"
    by (simp add: demo_paste_def)
  have d: "fmdrop ''YWFhYWFhYWE'' demo_store = fmempty"
    by (simp add: demo_store_def Put_def demo_paste_def fmdrop_fmupd_same)
  have z: "CountActive fmempty now = 0" for now
    by (simp add: CountActive_def)
  from Get_CountActive_boundary [OF demo_lookup, of "1000 + Hour"]
       Get_CountActive_boundary [OF demo_lookup, of "999 + Hour"]
       Get_CountActive_boundary [OF demo_lookup, of "1001 + Hour"]
  show ?thesis
    by (simp add: e d z demo_lookup)
qed

section \<open>Accepted edits\<close>

text \<open>
  An edit is accepted when the handler answers with its redirect or its JSON reply. Both
  handlers then put the paste \<open>edited\<close> makes of the one they read, from the code,
  language and author they were sent.
\<close>

lemma edit_accepted:
  assumes "Get s ident tg = (p, True)" and "URLParam_id r = ident"
    and "(handleEditSave L s r tg now = (resp, s') \<and>
          code = TrimSpace L (FormValue r ''code'') \<and>
          lang = normalizeLang (TrimSpace L (FormValue r ''lang'')) \<and>
          author = TrimSpace L (FormValue r ''author'')) \<or>
         (handleAPIEdit L cfg s r tg now = (resp, s') \<and>
          (\<exists>req. DecodeJSON r = Some req \<and> code = TrimSpace L (rCode req) \<and>
                 lang = normalizeLang (rLang req) \<and> author = TrimSpace L (rAuthor req)))"
    and "accepted resp"
  shows "Versions p \<noteq> [] \<and> code \<noteq> '''' \<and> Editable p \<and>
         s' = Put (edited L p code lang author now) s"
  using assms(3)
proof (elim disjE conjE exE)
  assume h: "handleEditSave L s r tg now = (resp, s')"
    and v: "code = TrimSpace L (FormValue r ''code'')"
      "lang = normalizeLang (TrimSpace L (FormValue r ''lang''))"
      "author = TrimSpace L (FormValue r ''author'')"
  from handleEditSave_accepted [OF h assms(4)] assms(1,2) v
  show ?thesis by (auto simp: canEditPaste_def split: if_splits)
next
  fix req
  assume h: "handleAPIEdit L cfg s r tg now = (resp, s')"
    and v: "DecodeJSON r = Some req" "code = TrimSpace L (rCode req)"
      "lang = normalizeLang (rLang req)" "author = TrimSpace L (rAuthor req)"
  from handleAPIEdit_accepted [OF h assms(4)] assms(1,2) v
  show ?thesis by auto
qed

lemma edit_accepted_any:
  assumes "Get s ident tg = (p, True)" and "URLParam_id r = ident"
    and "handleEditSave L s r tg now = (resp, s') \<or> handleAPIEdit L cfg s r tg now = (resp, s')"
    and "accepted resp"
  shows "\<exists>code lang author. s' = Put (edited L p code lang author now) s"
  using assms(3)
proof
  assume h: "handleEditSave L s r tg now = (resp, s')"
  from handleEditSave_accepted [OF h assms(4)] assms(1,2)
  show ?thesis by auto
next
  assume h: "handleAPIEdit L cfg s r tg now = (resp, s')"
  from handleAPIEdit_accepted [OF h assms(4)] assms(1,2)
  show ?thesis by auto
qed

lemma lookup_Put_edited:
  "ID p = ident \<Longrightarrow>
     fmlookup (Put (edited L p code lang author now) s) k =
       (if k = ident then Some (edited L p code lang author now) else fmlookup s k)"
  by (auto simp: Put_def edited_frame)

text \<open>
  C9. An accepted edit, through either handler, of a paste stored under its own
  identifier leaves \<open>ExpiresAt\<close>, \<open>ID\<close>, \<open>Editable\<close>, \<open>EditKey\<close> and \<open>CreatedAt\<close> of the
  stored paste as they were, and leaves every other entry of the store alone.
\<close>

theorem edit_keeps_expiry:
  assumes "Get s ident tg = (p, True)" and "URLParam_id r = ident" and "ID p = ident"
    and "handleEditSave L s r tg now = (resp, s') \<or> handleAPIEdit L cfg s r tg now = (resp, s')"
    and "accepted resp"
  shows "\<exists>p'. fmlookup s' ident = Some p' \<and>
              ExpiresAt p' = ExpiresAt p \<and> ID p' = ID p \<and> Editable p' = Editable p \<and>
              EditKey p' = EditKey p \<and> CreatedAt p' = CreatedAt p \<and>
              (\<forall>k. k \<noteq> ident \<longrightarrow> fmlookup s' k = fmlookup s k)"
proof -
  from edit_accepted_any [OF assms(1,2,4,5)] obtain code lang author
    where "s' = Put (edited L p code lang author now) s" by blast
  then show ?thesis
    using assms(3) by (simp add: lookup_Put_edited edited_frame)
qed

text \<open>
  C6. An accepted edit, through either handler, whose code equals the text that the last
  version decodes to and whose normalised language equals that version's language adds
  no version: the versions stay as they are, \<open>UpdatedAt\<close> becomes the handler's clock
  reading, and \<open>Author\<close> becomes the submitted author when that is not empty and stays
  otherwise.
\<close>

theorem edit_same_content:
  assumes "Get s ident tg = (p, True)" and "URLParam_id r = ident" and "ID p = ident"
    and "(handleEditSave L s r tg now = (resp, s') \<and>
          code = TrimSpace L (FormValue r ''code'') \<and>
          lang = normalizeLang (TrimSpace L (FormValue r ''lang'')) \<and>
          author = TrimSpace L (FormValue r ''author'')) \<or>
         (handleAPIEdit L cfg s r tg now = (resp, s') \<and>
          (\<exists>req. DecodeJSON r = Some req \<and> code = TrimSpace L (rCode req) \<and>
                 lang = normalizeLang (rLang req) \<and> author = TrimSpace L (rAuthor req)))"
    and "accepted resp"
    and "code = fst (GzipDecode L (ZCode (last (Versions p))))"
    and "lang = VLang (last (Versions p))"
  shows "\<exists>p'. fmlookup s' ident = Some p' \<and> Editable p \<and>
              Versions p' = Versions p \<and> length (Versions p') = length (Versions p) \<and>
              UpdatedAt p' = now \<and>
              Author p' = (if author \<noteq> '''' then author else Author p)"
proof -
  from edit_accepted [OF assms(1,2,4,5)]
  have "Editable p" and "s' = Put (edited L p code lang author now) s" by simp_all
  then show ?thesis
    using assms(3,6,7) by (simp add: lookup_Put_edited edited_fields edited_Versions)
qed

text \<open>
  C5. An accepted edit, through either handler, whose code differs from the text that
  the last version decodes to appends exactly one version, made of the submitted code,
  language and author and the handler's clock reading. Every later \<^verbatim>\<open>Get\<close> before the
  paste expires returns the paste with that version last, \<^verbatim>\<open>handleRaw\<close> serves the text
  that version decodes to, and \<^verbatim>\<open>handleView\<close> without a version parameter shows it.
\<close>

theorem edit_new_content:
  assumes "Get s ident tg = (p, True)" and "URLParam_id r = ident" and "ID p = ident"
    and "(handleEditSave L s r tg now = (resp, s') \<and>
          code = TrimSpace L (FormValue r ''code'') \<and>
          lang = normalizeLang (TrimSpace L (FormValue r ''lang'')) \<and>
          author = TrimSpace L (FormValue r ''author'')) \<or>
         (handleAPIEdit L cfg s r tg now = (resp, s') \<and>
          (\<exists>req. DecodeJSON r = Some req \<and> code = TrimSpace L (rCode req) \<and>
                 lang = normalizeLang (rLang req) \<and> author = TrimSpace L (rAuthor req)))"
    and "accepted resp"
    and "code \<noteq> fst (GzipDecode L (ZCode (last (Versions p))))"
    and "new = \<lparr>ZCode = GzipEncode L code, VLang = lang, VAuthor = author, At = now\<rparr>"
  shows "\<exists>p'. fmlookup s' ident = Some p' \<and>
              Versions p' = Versions p @ [new] \<and>
              length (Versions p') = length (Versions p) + 1 \<and>
              (\<forall>t r'. \<not> After t (ExpiresAt p) \<and> URLParam_id r' = ident \<longrightarrow>
                 Get s' ident t = (p', True) \<and>
                 last (Versions (fst (Get s' ident t))) = new \<and>
                 handleRaw L s' r' t = PlainText (fst (GzipDecode L (ZCode new))) \<and>
                 (TrimSpace L (Query r' ''v'') = '''' \<longrightarrow>
                    handleView_version L r' p' =
                      Some (length (Versions p), fst (GzipDecode L (ZCode new)), lang)))"
proof -
  let ?p' = "edited L p code lang author now"
  from edit_accepted [OF assms(1,2,4,5)]
  have s': "s' = Put ?p' s" by simp
  have lk: "fmlookup s' ident = Some ?p'"
    using s' assms(3) by (simp add: lookup_Put_edited)
  have vs: "Versions ?p' = Versions p @ [new]"
    using assms(6,7) by (simp add: edited_Versions)
  have get: "Get s' ident t = (?p', True)" if "\<not> After t (ExpiresAt p)" for t
    using that lk by (simp add: Get_lookup edited_frame)
  have raw: "handleRaw L s' r' t = PlainText (fst (GzipDecode L (ZCode new)))"
    if "\<not> After t (ExpiresAt p)" and "URLParam_id r' = ident" for t r'
    using get [OF that(1)] that(2) by (simp add: handleRaw_def vs)
  have view: "handleView_version L r' ?p' =
                Some (length (Versions p), fst (GzipDecode L (ZCode new)), lang)"
    if "TrimSpace L (Query r' ''v'') = ''''" for r'
    using that assms(7) by (simp add: handleView_version_def vs Let_def)
  from lk vs get raw view show ?thesis
    by (intro exI [of _ ?p']) simp
qed

section \<open>The edit handlers on concrete inputs\<close>

lemma handleEditSave_ok:
  assumes "Get s (URLParam_id r) tg = (p, True)"
    and "canEditPaste r p" and "ParseForm_ok r"
    and "TrimSpace L (FormValue r ''code'') \<noteq> ''''" and "Versions p \<noteq> []"
  shows "accepted (fst (handleEditSave L s r tg now)) \<and>
         snd (handleEditSave L s r tg now) =
           Put (edited L p (TrimSpace L (FormValue r ''code''))
                  (normalizeLang (TrimSpace L (FormValue r ''lang'')))
                  (TrimSpace L (FormValue r ''author'')) now) s"
  using handleEditSave_local_ok [OF assms(2-5), of now] assms(1)
  by (cases "handleEditSave_local L r now p") (auto simp: handleEditSave_def)

lemma handleAPIEdit_ok:
  assumes "Get s (URLParam_id r) tg = (p, True)"
    and "Query r ''key'' \<noteq> ''''" and "Editable p" and "Query r ''key'' = EditKey p"
    and "DecodeJSON r = Some req"
    and "TrimSpace L (rCode req) \<noteq> ''''" and "Versions p \<noteq> []"
  shows "accepted (fst (handleAPIEdit L cfg s r tg now)) \<and>
         snd (handleAPIEdit L cfg s r tg now) =
           Put (edited L p (TrimSpace L (rCode req)) (normalizeLang (rLang req))
                  (TrimSpace L (rAuthor req)) now) s"
  using handleAPIEdit_local_ok [OF assms(2-7), of cfg now] assms(1)
  by (cases "handleAPIEdit_local L cfg r now p") (auto simp: handleAPIEdit_def)

lemma demo_Get:
  "t \<le> 1000 + Hour \<Longrightarrow> Get demo_store ''YWFhYWFhYWE'' t = (demo_paste, True)"
  by (simp add: Get_lookup [OF demo_lookup] After_def) (simp add: demo_paste_def)

lemma demo_codec:
  "GzipEncode reflib c = gzip_magic @ c"
  "GzipDecode reflib (gzip_magic @ c) = (c, None)"
  by (simp_all add: GzipEncode_def GzipDecode_def reflib_def framed_NewReader_def gzip_magic_def)

lemma demo_paste_fields:
  "ID demo_paste = ''YWFhYWFhYWE''"
  "Editable demo_paste"
  "EditKey demo_paste = ''a2tra2tra2tra2tr''"
  "ExpiresAt demo_paste = 1000 + Hour"
  "CreatedAt demo_paste = 1000"
  "Author demo_paste = ''alice''"
  "Versions demo_paste =
     [\<lparr>ZCode = gzip_magic @ ''print(1)'', VLang = ''python'', VAuthor = ''alice'', At = 1000\<rparr>]"
  by (simp_all add: demo_paste_def)

lemma demo_request_fields:
  "URLParam_id (demo_request c l a) = ''YWFhYWFhYWE''"
  "Query (demo_request c l a) ''key'' = ''a2tra2tra2tra2tr''"
  "Query (demo_request c l a) ''v'' = ''''"
  "ParseForm_ok (demo_request c l a)"
  "FormValue (demo_request c l a) ''code'' = c"
  "FormValue (demo_request c l a) ''lang'' = l"
  "FormValue (demo_request c l a) ''author'' = a"
  "DecodeJSON (demo_request c l a) =
     Some \<lparr>rCode = c, rLang = l, rTTL = '''', rTheme = '''', rEditable = False, rAuthor = a\<rparr>"
  by (simp_all add: demo_request_def)

lemma demo_canEdit: "canEditPaste (demo_request c l a) demo_paste"
  by (simp add: canEditPaste_def demo_request_fields demo_paste_fields)

lemma demo_python: "normalizeLang ''python'' = ''python''"
  by (simp add: normalizeLang_def Langs_def)

lemma demo_TrimSpace: "TrimSpace reflib = trim_ascii"
  by (simp add: reflib_def)

lemma demo_saved_eq:
  "accepted (fst demo_saved)"
  "snd demo_saved = Put (edited reflib demo_paste ''print(2)'' ''python'' ''bob'' 2001) demo_store"
  using handleEditSave_ok [of demo_store "demo_request ''print(2)'' ''python'' ''bob''" 2000
      demo_paste reflib 2001]
  by (simp_all add: demo_saved_def demo_request_fields demo_Get Hour_def demo_canEdit
      demo_TrimSpace demo_trim demo_python demo_paste_fields)

lemma demo_api_saved_eq:
  "accepted (fst demo_api_saved)"
  "snd demo_api_saved =
     Put (edited reflib demo_paste ''print(2)'' ''python'' ''bob'' 2001) demo_store"
  using handleAPIEdit_ok [of demo_store "demo_request ''print(2)'' ''python'' ''bob''" 2000
      demo_paste _ reflib demo_config 2001]
  by (simp_all add: demo_api_saved_def demo_request_fields demo_Get Hour_def
      demo_TrimSpace demo_trim demo_python demo_paste_fields)

lemma demo_resaved_eq:
  "accepted (fst demo_resaved)"
  "snd demo_resaved =
     Put (edited reflib demo_paste ''print(1)'' ''python'' ''bob'' 2001) demo_store"
  using handleEditSave_ok [of demo_store "demo_request ''print(1)'' ''python'' ''bob''" 2000
      demo_paste reflib 2001]
  by (simp_all add: demo_resaved_def demo_request_fields demo_Get Hour_def demo_canEdit
      demo_TrimSpace demo_trim demo_python demo_paste_fields)

lemma demo_api_resaved_eq:
  "accepted (fst demo_api_resaved)"
  "snd demo_api_resaved =
     Put (edited reflib demo_paste ''print(1)'' ''python'' '''' 2001) demo_store"
  using handleAPIEdit_ok [of demo_store "demo_request ''print(1)'' ''python'' ''''" 2000
      demo_paste _ reflib demo_config 2001]
  by (simp_all add: demo_api_resaved_def demo_request_fields demo_Get Hour_def
      demo_TrimSpace demo_trim demo_python demo_paste_fields)

theorem edit_keeps_expiry_witness:
  "Get demo_store ''YWFhYWFhYWE'' 2000 = (demo_paste, True) \<and>
   accepted (fst demo_saved) \<and> accepted (fst demo_api_saved) \<and>
   ExpiresAt demo_paste = 1000 + Hour \<and>
   map_option ExpiresAt (fmlookup (snd demo_saved) ''YWFhYWFhYWE'') = Some (1000 + Hour) \<and>
   map_option ExpiresAt (fmlookup (snd demo_api_saved) ''YWFhYWFhYWE'') = Some (1000 + Hour) \<and>
   map_option EditKey (fmlookup (snd demo_saved) ''YWFhYWFhYWE'') = Some ''a2tra2tra2tra2tr''"
proof -
  have g: "Get demo_store ''YWFhYWFhYWE'' 2000 = (demo_paste, True)"
    by (simp add: demo_Get Hour_def)
  have 1: "handleEditSave reflib demo_store (demo_request ''print(2)'' ''python'' ''bob'')
             2000 2001 = (fst demo_saved, snd demo_saved) \<or>
           handleAPIEdit reflib demo_config demo_store
             (demo_request ''print(2)'' ''python'' ''bob'') 2000 2001 =
             (fst demo_saved, snd demo_saved)"
    by (simp add: demo_saved_def)
  have 2: "handleEditSave reflib demo_store (demo_request ''print(2)'' ''python'' ''bob'')
             2000 2001 = (fst demo_api_saved, snd demo_api_saved) \<or>
           handleAPIEdit reflib demo_config demo_store
             (demo_request ''print(2)'' ''python'' ''bob'') 2000 2001 =
             (fst demo_api_saved, snd demo_api_saved)"
    by (simp add: demo_api_saved_def)
  from edit_keeps_expiry [OF g demo_request_fields(1) demo_paste_fields(1) 1 demo_saved_eq(1)]
       edit_keeps_expiry [OF g demo_request_fields(1) demo_paste_fields(1) 2
         demo_api_saved_eq(1)]
  show ?thesis
    using g demo_saved_eq(1) demo_api_saved_eq(1) by (auto simp: demo_paste_fields)
qed

theorem edit_same_content_witness:
  "Get demo_store ''YWFhYWFhYWE'' 2000 = (demo_paste, True) \<and>
   accepted (fst demo_resaved) \<and> accepted (fst demo_api_resaved) \<and>
   map_option Versions (fmlookup (snd demo_resaved) ''YWFhYWFhYWE'') =
     Some (Versions demo_paste) \<and>
   map_option UpdatedAt (fmlookup (snd demo_resaved) ''YWFhYWFhYWE'') = Some 2001 \<and>
   map_option Author (fmlookup (snd demo_resaved) ''YWFhYWFhYWE'') = Some ''bob'' \<and>
   map_option Versions (fmlookup (snd demo_api_resaved) ''YWFhYWFhYWE'') =
     Some (Versions demo_paste) \<and>
   map_option UpdatedAt (fmlookup (snd demo_api_resaved) ''YWFhYWFhYWE'') = Some 2001 \<and>
   map_option Author (fmlookup (snd demo_api_resaved) ''YWFhYWFhYWE'') = Some ''alice''"
proof -
  let ?r = "demo_request ''print(1)'' ''python'' ''bob''"
  let ?r' = "demo_request ''print(1)'' ''python'' ''''"
  have g: "Get demo_store ''YWFhYWFhYWE'' 2000 = (demo_paste, True)"
    by (simp add: demo_Get Hour_def)
  have 1: "(handleEditSave reflib demo_store ?r 2000 2001 = (fst demo_resaved, snd demo_resaved) \<and>
            ''print(1)'' = TrimSpace reflib (FormValue ?r ''code'') \<and>
            ''python'' = normalizeLang (TrimSpace reflib (FormValue ?r ''lang'')) \<and>
            ''bob'' = TrimSpace reflib (FormValue ?r ''author'')) \<or>
           (handleAPIEdit reflib demo_config demo_store ?r 2000 2001 =
              (fst demo_resaved, snd demo_resaved) \<and>
            (\<exists>req. DecodeJSON ?r = Some req \<and> ''print(1)'' = TrimSpace reflib (rCode req) \<and>
                   ''python'' = normalizeLang (rLang req) \<and>
                   ''bob'' = TrimSpace reflib (rAuthor req)))"
    by (simp add: demo_resaved_def demo_request_fields demo_TrimSpace demo_trim demo_python)
  have 2: "(handleEditSave reflib demo_store ?r' 2000 2001 =
              (fst demo_api_resaved, snd demo_api_resaved) \<and>
            ''print(1)'' = TrimSpace reflib (FormValue ?r' ''code'') \<and>
            ''python'' = normalizeLang (TrimSpace reflib (FormValue ?r' ''lang'')) \<and>
            '''' = TrimSpace reflib (FormValue ?r' ''author'')) \<or>
           (handleAPIEdit reflib demo_config demo_store ?r' 2000 2001 =
              (fst demo_api_resaved, snd demo_api_resaved) \<and>
            (\<exists>req. DecodeJSON ?r' = Some req \<and> ''print(1)'' = TrimSpace reflib (rCode req) \<and>
                   ''python'' = normalizeLang (rLang req) \<and>
                   '''' = TrimSpace reflib (rAuthor req)))"
    by (simp add: demo_api_resaved_def demo_request_fields demo_TrimSpace demo_trim demo_python)
  have c: "''print(1)'' = fst (GzipDecode reflib (ZCode (last (Versions demo_paste))))"
    by (simp add: demo_paste_fields demo_codec)
  have l: "''python'' = VLang (last (Versions demo_paste))"
    by (simp add: demo_paste_fields)
  from edit_same_content [OF g demo_request_fields(1) demo_paste_fields(1) 1
         demo_resaved_eq(1) c l]
       edit_same_content [OF g demo_request_fields(1) demo_paste_fields(1) 2
         demo_api_resaved_eq(1) c l]
  show ?thesis
    using g demo_resaved_eq(1) demo_api_resaved_eq(1) by (auto simp: demo_paste_fields)
qed

theorem edit_new_content_witness:
  "Get demo_store ''YWFhYWFhYWE'' 2000 = (demo_paste, True) \<and>
   accepted (fst demo_saved) \<and> accepted (fst demo_api_saved) \<and>
   length (Versions demo_paste) = 1 \<and>
   length (Versions (fst (Get (snd demo_saved) ''YWFhYWFhYWE'' 3000))) = 2 \<and>
   handleRaw reflib (snd demo_saved) (demo_request '''' '''' '''') 3000 = PlainText ''print(2)'' \<and>
   handleView_version reflib (demo_request '''' '''' '''')
     (fst (Get (snd demo_saved) ''YWFhYWFhYWE'' 3000)) = Some (1, ''print(2)'', ''python'') \<and>
   length (Versions (fst (Get (snd demo_api_saved) ''YWFhYWFhYWE'' 3000))) = 2 \<and>
   handleRaw reflib (snd demo_api_saved) (demo_request '''' '''' '''') 3000 =
     PlainText ''print(2)''"
proof -
  let ?r = "demo_request ''print(2)'' ''python'' ''bob''"
  let ?new = "\<lparr>ZCode = GzipEncode reflib ''print(2)'', VLang = ''python'', VAuthor = ''bob'',
               At = 2001\<rparr>"
  have g: "Get demo_store ''YWFhYWFhYWE'' 2000 = (demo_paste, True)"
    by (simp add: demo_Get Hour_def)
  have 1: "(handleEditSave reflib demo_store ?r 2000 2001 = (fst demo_saved, snd demo_saved) \<and>
            ''print(2)'' = TrimSpace reflib (FormValue ?r ''code'') \<and>
            ''python'' = normalizeLang (TrimSpace reflib (FormValue ?r ''lang'')) \<and>
            ''bob'' = TrimSpace reflib (FormValue ?r ''author'')) \<or>
           (handleAPIEdit reflib demo_config demo_store ?r 2000 2001 =
              (fst demo_saved, snd demo_saved) \<and>
            (\<exists>req. DecodeJSON ?r = Some req \<and> ''print(2)'' = TrimSpace reflib (rCode req) \<and>
                   ''python'' = normalizeLang (rLang req) \<and>
                   ''bob'' = TrimSpace reflib (rAuthor req)))"
    by (simp add: demo_saved_def demo_request_fields demo_TrimSpace demo_trim demo_python)
  have 2: "(handleEditSave reflib demo_store ?r 2000 2001 =
              (fst demo_api_saved, snd demo_api_saved) \<and>
            ''print(2)'' = TrimSpace reflib (FormValue ?r ''code'') \<and>
            ''python'' = normalizeLang (TrimSpace reflib (FormValue ?r ''lang'')) \<and>
            ''bob'' = TrimSpace reflib (FormValue ?r ''author'')) \<or>
           (handleAPIEdit reflib demo_config demo_store ?r 2000 2001 =
              (fst demo_api_saved, snd demo_api_saved) \<and>
            (\<exists>req. DecodeJSON ?r = Some req \<and> ''print(2)'' = TrimSpace reflib (rCode req) \<and>
                   ''python'' = normalizeLang (rLang req) \<and>
                   ''bob'' = TrimSpace reflib (rAuthor req)))"
    by (simp add: demo_api_saved_def demo_request_fields demo_TrimSpace demo_trim demo_python)
  have c: "''print(2)'' \<noteq> fst (GzipDecode reflib (ZCode (last (Versions demo_paste))))"
    by (simp add: demo_paste_fields demo_codec)
  have t: "\<not> After 3000 (ExpiresAt demo_paste)"
    by (simp add: After_def demo_paste_fields Hour_def)
  have v: "TrimSpace reflib (Query (demo_request '''' '''' '''') ''v'') = ''''"
    by (simp add: demo_request_fields demo_TrimSpace demo_trim)
  from edit_new_content [OF g demo_request_fields(1) demo_paste_fields(1) 1
         demo_saved_eq(1) c refl]
  obtain p1 where p1:
    "length (Versions p1) = length (Versions demo_paste) + 1"
    "Get (snd demo_saved) ''YWFhYWFhYWE'' 3000 = (p1, True)"
    "handleRaw reflib (snd demo_saved) (demo_request '''' '''' '''') 3000 =
       PlainText (fst (GzipDecode reflib (ZCode ?new)))"
    "handleView_version reflib (demo_request '''' '''' '''') p1 =
       Some (length (Versions demo_paste), fst (GzipDecode reflib (ZCode ?new)), ''python'')"
    using t v demo_request_fields(1) [of "''''" "''''" "''''"] by blast
  from edit_new_content [OF g demo_request_fields(1) demo_paste_fields(1) 2
         demo_api_saved_eq(1) c refl]
  obtain p2 where p2:
    "length (Versions p2) = length (Versions demo_paste) + 1"
    "Get (snd demo_api_saved) ''YWFhYWFhYWE'' 3000 = (p2, True)"
    "handleRaw reflib (snd demo_api_saved) (demo_request '''' '''' '''') 3000 =
       PlainText (fst (GzipDecode reflib (ZCode ?new)))"
    using t demo_request_fields(1) [of "''''" "''''" "''''"] by blast
  from p1 p2 g demo_saved_eq(1) demo_api_saved_eq(1) show ?thesis
    by (simp add: demo_codec demo_paste_fields)
qed

section \<open>Creation and decoding\<close>

text \<open>
  C7. \<^verbatim>\<open>buildPaste\<close> answers code that is empty after trimming with the error for empty
  content. For other code it answers a time-to-live that \<^verbatim>\<open>ParseTTL\<close> rejects with the
  error for an invalid time-to-live, and otherwise returns a paste with exactly one
  version, with an edit key that is not empty exactly when the paste was asked to be
  editable, created at the clock reading and expiring at that reading plus the parsed
  duration. \<^verbatim>\<open>ParseTTL\<close> knows \<^verbatim>\<open>1h\<close>, \<^verbatim>\<open>24h\<close>, \<^verbatim>\<open>168h\<close> and \<^verbatim>\<open>7d\<close>, takes the empty
  string for 24 hours, and hands every other string to \<^verbatim>\<open>time.ParseDuration\<close>.
\<close>

theorem buildPaste_contract:
  "(TrimSpace L code = '''' \<longrightarrow>
      buildPaste L E code lang ttl theme editable author = Inl EmptyContent) \<and>
   (TrimSpace L code \<noteq> '''' \<longrightarrow>
      (case ParseTTL L ttl of
         Inl err \<Rightarrow> buildPaste L E code lang ttl theme editable author = Inl InvalidTTL
       | Inr d \<Rightarrow>
           \<exists>p. buildPaste L E code lang ttl theme editable author = Inr p \<and>
               length (Versions p) = 1 \<and>
               (EditKey p \<noteq> '''' \<longleftrightarrow> editable) \<and>
               CreatedAt p = env_now E \<and>
               ExpiresAt p = Add (env_now E) d)) \<and>
   ParseTTL L ''1h'' = Inr Hour \<and>
   ParseTTL L ''24h'' = Inr (24 * Hour) \<and>
   ParseTTL L ''168h'' = Inr (168 * Hour) \<and>
   ParseTTL L ''7d'' = Inr (168 * Hour) \<and>
   ParseTTL L '''' = Inr (24 * Hour) \<and>
   (ttl \<notin> {''1h'', ''24h'', ''168h'', ''7d'', ''''} \<longrightarrow> ParseTTL L ttl = ParseDuration L ttl)"
proof -
  have empty: "buildPaste L E code lang ttl theme editable author = Inl EmptyContent"
    if "TrimSpace L code = ''''"
    using that by (simp add: buildPaste_def)
  have rest: "(case ParseTTL L ttl of
         Inl err \<Rightarrow> buildPaste L E code lang ttl theme editable author = Inl InvalidTTL
       | Inr d \<Rightarrow>
           \<exists>p. buildPaste L E code lang ttl theme editable author = Inr p \<and>
               length (Versions p) = 1 \<and>
               (EditKey p \<noteq> '''' \<longleftrightarrow> editable) \<and>
               CreatedAt p = env_now E \<and>
               ExpiresAt p = Add (env_now E) d)"
    if "TrimSpace L code \<noteq> ''''"
  proof (cases "ParseTTL L ttl")
    case (Inl err)
    then show ?thesis
      using that by (simp add: buildPaste_def Let_def)
  next
    case (Inr d)
    have "NewID (key_rand E) (key_clock E) 12 \<noteq> ''''"
      by (rule NewID_nonempty) simp
    then show ?thesis
      using that Inr by (simp add: buildPaste_def Let_def)
  qed
  have table: "ParseTTL L ''1h'' = Inr Hour" "ParseTTL L ''24h'' = Inr (24 * Hour)"
    "ParseTTL L ''168h'' = Inr (168 * Hour)" "ParseTTL L ''7d'' = Inr (168 * Hour)"
    "ParseTTL L '''' = Inr (24 * Hour)"
    by (simp_all add: ParseTTL_def)
  have other: "ParseTTL L ttl = ParseDuration L ttl"
    if "ttl \<notin> {''1h'', ''24h'', ''168h'', ''7d'', ''''}"
    using that by (simp add: ParseTTL_def)
  from empty rest table other show ?thesis by blast
qed

lemma demo_durations:
  "parse_whole_duration ''90m'' = Inr 5400000000000"
  "parse_whole_duration ''bogus'' = Inl (GoError ''time: invalid duration'')"
  by (simp_all add: parse_whole_duration_def isDigit_def unit_ns_def decimal_def)

theorem buildPaste_contract_witness:
  "buildPaste reflib demo_env ''   '' ''python'' ''1h'' ''dark'' True ''alice'' =
     Inl EmptyContent \<and>
   buildPaste reflib demo_env ''print(1)'' ''python'' ''bogus'' ''dark'' True ''alice'' =
     Inl InvalidTTL \<and>
   buildPaste reflib demo_env ''  print(1) '' ''python'' ''1h'' ''dark'' True ''alice'' =
     Inr demo_paste \<and>
   length (Versions demo_paste) = 1 \<and> EditKey demo_paste \<noteq> '''' \<and>
   ExpiresAt demo_paste = Add 1000 Hour \<and>
   (\<exists>p. buildPaste reflib demo_env ''print(1)'' ''python'' ''90m'' ''dark'' False ''alice'' =
          Inr p \<and> EditKey p = '''' \<and> ExpiresAt p = Add 1000 5400000000000)"
proof -
  let ?bogus = "''bogus''"
  let ?m = "''90m''"
  have n: "env_now demo_env = 1000"
    by (simp add: demo_env_def)
  have ttl: "ParseTTL reflib ?bogus = Inl (GoError ''time: invalid duration'')"
    "ParseTTL reflib ?m = Inr 5400000000000"
    by (simp_all add: ParseTTL_def reflib_def demo_durations)
  have 1: "buildPaste reflib demo_env ''   '' ''python'' ''1h'' ''dark'' True ''alice'' =
             Inl EmptyContent"
    using buildPaste_contract [of reflib "''   ''" demo_env "''python''" "''1h''" "''dark''"
        True "''alice''"]
    by (simp add: demo_TrimSpace demo_trim)
  have 2: "buildPaste reflib demo_env ''print(1)'' ''python'' ''bogus'' ''dark'' True ''alice'' =
             Inl InvalidTTL"
    using buildPaste_contract [of reflib "''print(1)''" demo_env "''python''" ?bogus "''dark''"
        True "''alice''"]
    by (simp add: demo_TrimSpace demo_trim ttl)
  have 3: "length (Versions demo_paste) = 1 \<and> EditKey demo_paste \<noteq> '''' \<and>
           ExpiresAt demo_paste = Add 1000 Hour"
    using buildPaste_contract [of reflib "''  print(1) ''" demo_env "''python''" "''1h''"
        "''dark''" True "''alice''"]
    by (simp add: demo_TrimSpace demo_trim demo_build n ParseTTL_def)
  have 4: "\<exists>p. buildPaste reflib demo_env ''print(1)'' ''python'' ''90m'' ''dark'' False
                  ''alice'' = Inr p \<and> EditKey p = '''' \<and> ExpiresAt p = Add 1000 5400000000000"
    using buildPaste_contract [of reflib "''print(1)''" demo_env "''python''" ?m "''dark''"
        False "''alice''"]
    by (auto simp: demo_TrimSpace demo_trim ttl n)
  from 1 2 3 4 demo_build show ?thesis by simp
qed

text \<open>
  C8, as the code has it. Where the bytes of the version to be read do not decode, the
  error of \<^verbatim>\<open>GzipDecode\<close> is dropped and the read goes on with the empty text:
  \<^verbatim>\<open>handleRaw\<close> answers with an ordinary plain-text reply whose body is empty, and
  \<^verbatim>\<open>handleView\<close> renders the empty text for the version it chose.
\<close>

theorem decode_failure_reads_empty:
  assumes "Get s (URLParam_id r) t = (p, True)"
  shows "(Versions p \<noteq> [] \<and> snd (GzipDecode L (ZCode (last (Versions p)))) \<noteq> None \<longrightarrow>
            handleRaw L s r t = PlainText '''') \<and>
         (\<forall>i code lang.
            handleView_version L r p = Some (i, code, lang) \<and>
            snd (GzipDecode L (ZCode (Versions p ! i))) \<noteq> None \<longrightarrow> code = '''')"
proof -
  have fail: "fst (GzipDecode L b) = ''''" if "snd (GzipDecode L b) \<noteq> None" for b
    using that by (auto simp: GzipDecode_def split: sum.splits)
  have raw: "handleRaw L s r t = PlainText ''''"
    if "Versions p \<noteq> []" and "snd (GzipDecode L (ZCode (last (Versions p)))) \<noteq> None"
    using assms that fail by (simp add: handleRaw_def last_conv_nth)
  have view: "code = ''''"
    if "handleView_version L r p = Some (i, code, lang)"
      and "snd (GzipDecode L (ZCode (Versions p ! i))) \<noteq> None" for i code lang
  proof -
    from that(1) have "code = fst (GzipDecode L (ZCode (Versions p ! i)))"
      by (auto simp: handleView_version_def Let_def split: if_splits option.splits)
    with fail [OF that(2)] show ?thesis by simp
  qed
  from raw view show ?thesis by blast
qed

lemma demo_corrupt_fields:
  "ID demo_corrupt = ''YWFhYWFhYWE''"
  "ExpiresAt demo_corrupt = 1000 + Hour"
  "Versions demo_corrupt =
     [\<lparr>ZCode = ''this is not gzip data'', VLang = ''python'', VAuthor = ''alice'', At = 1000\<rparr>]"
  by (simp_all add: demo_corrupt_def demo_paste_def)

lemma demo_corrupt_decode:
  "GzipDecode reflib ''this is not gzip data'' = ('''', Some (GoError ''gzip: invalid header''))"
  by (simp add: GzipDecode_def reflib_def framed_NewReader_def gzip_magic_def)

lemma demo_corrupt_Get:
  "Get (Put demo_corrupt fmempty) ''YWFhYWFhYWE'' 2000 = (demo_corrupt, True)"
  using Get_Put_same [of demo_corrupt fmempty 2000]
  by (simp add: demo_corrupt_fields After_def Hour_def)

theorem decode_failure_reads_empty_witness:
  "Get (Put demo_corrupt fmempty) ''YWFhYWFhYWE'' 2000 = (demo_corrupt, True) \<and>
   snd (GzipDecode reflib (ZCode (last (Versions demo_corrupt)))) \<noteq> None \<and>
   handleRaw reflib (Put demo_corrupt fmempty) (demo_request '''' '''' '''') 2000 = PlainText '''' \<and>
   handleView_version reflib (demo_request '''' '''' '''') demo_corrupt =
     Some (0, '''', ''python'')"
proof -
  let ?r = "demo_request '''' '''' ''''"
  have g: "Get (Put demo_corrupt fmempty) (URLParam_id ?r) 2000 = (demo_corrupt, True)"
    by (simp add: demo_request_fields demo_corrupt_Get)
  have f: "snd (GzipDecode reflib (ZCode (last (Versions demo_corrupt)))) \<noteq> None"
    by (simp add: demo_corrupt_fields demo_corrupt_decode)
  have v: "\<exists>code. handleView_version reflib ?r demo_corrupt = Some (0, code, ''python'')"
    by (simp add: handleView_version_def demo_request_fields demo_TrimSpace demo_trim
        demo_corrupt_fields Let_def)
  then obtain code where
    code: "handleView_version reflib ?r demo_corrupt = Some (0, code, ''python'')" ..
  have f0: "snd (GzipDecode reflib (ZCode (Versions demo_corrupt ! 0))) \<noteq> None"
    by (simp add: demo_corrupt_fields demo_corrupt_decode)
  from decode_failure_reads_empty [OF g, of reflib] f code f0
  have "handleRaw reflib (Put demo_corrupt fmempty) ?r 2000 = PlainText ''''" and "code = ''''"
    by (simp add: demo_corrupt_fields, blast)
  with g f code show ?thesis
    by (simp add: demo_request_fields)
qed

text \<open>
  C8 as stated fails: the only version of a stored paste holds bytes that are not gzip
  data, \<^verbatim>\<open>GzipDecode\<close> returns an error for them, and \<^verbatim>\<open>handleRaw\<close> answers the request for
  the paste with a plain-text reply whose body is the empty string.
\<close>

theorem handleRaw_corrupt_counterexample:
  "Versions demo_corrupt =
     [\<lparr>ZCode = ''this is not gzip data'', VLang = ''python'', VAuthor = ''alice'', At = 1000\<rparr>] \<and>
   GzipDecode reflib ''this is not gzip data'' = ('''', Some (GoError ''gzip: invalid header'')) \<and>
   Get (Put demo_corrupt fmempty) ''YWFhYWFhYWE'' 2000 = (demo_corrupt, True) \<and>
   handleRaw reflib (Put demo_corrupt fmempty) (demo_request '''' '''' '''') 2000 = PlainText ''''"
  by (simp add: demo_corrupt_fields demo_corrupt_decode demo_corrupt_Get handleRaw_def
      demo_request_fields)

section \<open>Two calls at the same time\<close>

lemma call_step_AtPut [simp]: "call_step L c (AtPut resp q) s = (Returned resp, Put q s)"
  by (simp add: call_step_def)

lemma call_step_AtGet:
  assumes "fmlookup s (ID q) = Some q" and "edit_ready L q c" and "Versions q \<noteq> []"
  shows "accepted (fst (handleEditSave_local L (call_req c) (call_now c) q)) \<and>
         call_step L c AtGet s =
           (AtPut (fst (handleEditSave_local L (call_req c) (call_now c) q)) (call_edit L c q), s)"
proof -
  let ?loc = "handleEditSave_local L (call_req c) (call_now c) q"
  have g: "Get s (URLParam_id (call_req c)) (call_t_get c) = (q, True)"
    using assms(1,2) by (simp add: edit_ready_def Get_lookup)
  have "accepted (fst ?loc) \<and> snd ?loc = Some (call_edit L c q)"
    using handleEditSave_local_ok [of "call_req c" q L "call_now c"] assms(2,3)
    by (simp add: edit_ready_def call_code_def call_edit_def)
  then show ?thesis
    using g by (cases ?loc) (simp add: call_step_def)
qed

lemma call_edit_frame:
  "ID (call_edit L c p) = ID p"
  "ExpiresAt (call_edit L c p) = ExpiresAt p"
  "edit_ready L (call_edit L c p) c' = edit_ready L p c'"
  by (simp_all add: call_edit_def edited_frame edit_ready_def canEditPaste_edited)

lemma call_edit_Versions:
  "Versions (call_edit L c p) =
     (if call_code L c \<noteq> fst (GzipDecode L (ZCode (last (Versions p)))) \<or>
         normalizeLang (TrimSpace L (FormValue (call_req c) ''lang'')) \<noteq>
           VLang (last (Versions p))
      then Versions p @
           [\<lparr>ZCode = GzipEncode L (call_code L c),
             VLang = normalizeLang (TrimSpace L (FormValue (call_req c) ''lang'')),
             VAuthor = TrimSpace L (FormValue (call_req c) ''author''),
             At = call_now c\<rparr>]
      else Versions p)"
  by (simp add: call_edit_def edited_Versions)

lemma call_edit_once:
  assumes "call_code L c \<noteq> fst (GzipDecode L (ZCode (last (Versions p))))"
  shows "length (Versions (call_edit L c p)) = length (Versions p) + 1"
    and "Versions (call_edit L c p) \<noteq> []"
    and "fst (GzipDecode L (ZCode (last (Versions (call_edit L c p))))) =
           fst (GzipDecode L (GzipEncode L (call_code L c)))"
  using assms by (simp_all add: call_edit_Versions)

lemma Get_Put_edit:
  assumes "ID q = ID p" and "ExpiresAt q = ExpiresAt p" and "\<not> After t (ExpiresAt p)"
  shows "Get (Put q s) (ID p) t = (q, True)"
  using assms Get_Put_same [of q s t] by simp

text \<open>
  C2, as the code has it. Two calls of \<^verbatim>\<open>handleEditSave\<close> for the same live paste, with
  codes that differ from each other and from the current text (and that the codec gives
  back), both return their redirect under every schedule. \<^verbatim>\<open>Get\<close> and \<^verbatim>\<open>Put\<close> are each
  one step, but a call's sequence from \<^verbatim>\<open>Get\<close> to \<^verbatim>\<open>Put\<close> is not: when one call returns
  before the other starts, the paste ends with two versions more than it had; when both
  calls read before either writes, the later \<^verbatim>\<open>Put\<close> replaces the earlier and the paste
  ends with one version more.
\<close>

theorem two_edit_calls:
  assumes "fmlookup s (ID p) = Some p" and "Versions p \<noteq> []"
    and "edit_ready L p a" and "edit_ready L p b"
    and "call_code L a \<noteq> call_code L b"
    and "call_code L a \<noteq> fst (GzipDecode L (ZCode (last (Versions p))))"
    and "call_code L b \<noteq> fst (GzipDecode L (ZCode (last (Versions p))))"
    and "fst (GzipDecode L (GzipEncode L (call_code L a))) = call_code L a"
    and "fst (GzipDecode L (GzipEncode L (call_code L b))) = call_code L b"
    and "sched \<in> set schedules"
    and "\<not> After t (ExpiresAt p)"
    and "run_calls L a b sched (AtGet, AtGet, s) = (pa, pb, s')"
  shows "returned_ok pa \<and> returned_ok pb \<and> snd (Get s' (ID p) t) \<and>
         length (Versions (fst (Get s' (ID p) t))) =
           length (Versions p) + (if serial sched then 2 else 1)"
proof -
  let ?qa = "call_edit L a p" and ?qb = "call_edit L b p"
  let ?qab = "call_edit L b (call_edit L a p)" and ?qba = "call_edit L a (call_edit L b p)"
  let ?ra = "fst (handleEditSave_local L (call_req a) (call_now a) p)"
  let ?rb = "fst (handleEditSave_local L (call_req b) (call_now b) p)"
  let ?rab = "fst (handleEditSave_local L (call_req b) (call_now b) ?qa)"
  let ?rba = "fst (handleEditSave_local L (call_req a) (call_now a) ?qb)"
  note one_a = call_edit_once [OF assms(6)] and one_b = call_edit_once [OF assms(7)]
  have ga: "accepted ?ra" "call_step L a AtGet s = (AtPut ?ra ?qa, s)"
    using call_step_AtGet [OF assms(1,3,2)] by simp_all
  have gb: "accepted ?rb" "call_step L b AtGet s = (AtPut ?rb ?qb, s)"
    using call_step_AtGet [OF assms(1,4,2)] by simp_all
  have "fmlookup (Put ?qa s) (ID ?qa) = Some ?qa"
    by (simp add: Put_def)
  from call_step_AtGet [OF this, of L b] one_a(2) assms(4)
  have gab: "accepted ?rab" "call_step L b AtGet (Put ?qa s) = (AtPut ?rab ?qab, Put ?qa s)"
    by (simp_all add: call_edit_frame)
  have "fmlookup (Put ?qb s) (ID ?qb) = Some ?qb"
    by (simp add: Put_def)
  from call_step_AtGet [OF this, of L a] one_b(2) assms(3)
  have gba: "accepted ?rba" "call_step L a AtGet (Put ?qb s) = (AtPut ?rba ?qba, Put ?qb s)"
    by (simp_all add: call_edit_frame)
  have lab: "length (Versions ?qab) = length (Versions p) + 2"
    using call_edit_once(1) [of L b ?qa] one_a(1,3) assms(5,8) by simp
  have lba: "length (Versions ?qba) = length (Versions p) + 2"
    using call_edit_once(1) [of L a ?qb] one_b(1,3) assms(5,9) by simp
  have get: "Get (Put q s0) (ID p) t = (q, True)"
    if "ID q = ID p" and "ExpiresAt q = ExpiresAt p" for q s0
    using that assms(11) by (rule Get_Put_edit)
  from assms(10) consider
      "sched = [First, First, Second, Second]" | "sched = [Second, Second, First, First]"
    | "sched = [First, Second, First, Second]" | "sched = [First, Second, Second, First]"
    | "sched = [Second, First, First, Second]" | "sched = [Second, First, Second, First]"
    by (auto simp: schedules_def)
  then show ?thesis
  proof cases
    case 1
    then have "(pa, pb, s') = (Returned ?ra, Returned ?rab, Put ?qab (Put ?qa s))"
      using assms(12) by (simp add: ga gab)
    then show ?thesis
      using 1 ga gab lab by (simp add: returned_ok_def serial_def get call_edit_frame)
  next
    case 2
    then have "(pa, pb, s') = (Returned ?rba, Returned ?rb, Put ?qba (Put ?qb s))"
      using assms(12) by (simp add: gb gba)
    then show ?thesis
      using 2 gb gba lba by (simp add: returned_ok_def serial_def get call_edit_frame)
  next
    case 3
    then have "(pa, pb, s') = (Returned ?ra, Returned ?rb, Put ?qb (Put ?qa s))"
      using assms(12) by (simp add: ga gb)
    then show ?thesis
      using 3 ga gb one_b by (simp add: returned_ok_def serial_def get call_edit_frame)
  next
    case 4
    then have "(pa, pb, s') = (Returned ?ra, Returned ?rb, Put ?qa (Put ?qb s))"
      using assms(12) by (simp add: ga gb)
    then show ?thesis
      using 4 ga gb one_a by (simp add: returned_ok_def serial_def get call_edit_frame)
  next
    case 5
    then have "(pa, pb, s') = (Returned ?ra, Returned ?rb, Put ?qb (Put ?qa s))"
      using assms(12) by (simp add: ga gb)
    then show ?thesis
      using 5 ga gb one_b by (simp add: returned_ok_def serial_def get call_edit_frame)
  next
    case 6
    then have "(pa, pb, s') = (Returned ?ra, Returned ?rb, Put ?qa (Put ?qb s))"
      using assms(12) by (simp add: ga gb)
    then show ?thesis
      using 6 ga gb one_a by (simp add: returned_ok_def serial_def get call_edit_frame)
  qed
qed

lemma demo_call_fields:
  "call_req (demo_call c a) = demo_request c ''python'' a"
  "call_t_get (demo_call c a) = 2000"
  "call_now (demo_call c a) = 2001"
  by (simp_all add: demo_call_def)

lemma demo_call_code:
  "call_code reflib (demo_call ''print(2)'' ''bob'') = ''print(2)''"
  "call_code reflib (demo_call ''print(3)'' ''carol'') = ''print(3)''"
  by (simp_all add: call_code_def demo_call_fields demo_request_fields demo_TrimSpace demo_trim)

lemma demo_ready:
  "edit_ready reflib demo_paste (demo_call ''print(2)'' ''bob'')"
  "edit_ready reflib demo_paste (demo_call ''print(3)'' ''carol'')"
  by (simp_all add: edit_ready_def demo_call_fields demo_call_code demo_request_fields
      demo_paste_fields demo_canEdit After_def Hour_def)

theorem two_edit_calls_witness:
  "fmlookup demo_store (ID demo_paste) = Some demo_paste \<and>
   edit_ready reflib demo_paste (demo_call ''print(2)'' ''bob'') \<and>
   edit_ready reflib demo_paste (demo_call ''print(3)'' ''carol'') \<and>
   length (Versions demo_paste) = 1 \<and>
   returned_ok (fst demo_serial) \<and> returned_ok (fst (snd demo_serial)) \<and>
   length (Versions (fst (Get (snd (snd demo_serial)) ''YWFhYWFhYWE'' 3000))) = 3 \<and>
   returned_ok (fst demo_race) \<and> returned_ok (fst (snd demo_race)) \<and>
   length (Versions (fst (Get (snd (snd demo_race)) ''YWFhYWFhYWE'' 3000))) = 2"
proof -
  let ?a = "demo_call ''print(2)'' ''bob''" and ?b = "demo_call ''print(3)'' ''carol''"
  have lk: "fmlookup demo_store (ID demo_paste) = Some demo_paste"
    by (simp add: demo_paste_fields demo_lookup)
  have ne: "Versions demo_paste \<noteq> []"
    by (simp add: demo_paste_fields)
  have ab: "call_code reflib ?a \<noteq> call_code reflib ?b"
    by (simp add: demo_call_code)
  have cur: "call_code reflib ?a \<noteq> fst (GzipDecode reflib (ZCode (last (Versions demo_paste))))"
    "call_code reflib ?b \<noteq> fst (GzipDecode reflib (ZCode (last (Versions demo_paste))))"
    by (simp_all add: demo_call_code demo_paste_fields demo_codec)
  have rt: "fst (GzipDecode reflib (GzipEncode reflib (call_code reflib ?a))) = call_code reflib ?a"
    "fst (GzipDecode reflib (GzipEncode reflib (call_code reflib ?b))) = call_code reflib ?b"
    by (simp_all add: demo_codec)
  have t: "\<not> After 3000 (ExpiresAt demo_paste)"
    by (simp add: After_def demo_paste_fields Hour_def)
  have s1: "[First, First, Second, Second] \<in> set schedules"
    and s2: "[First, Second, First, Second] \<in> set schedules"
    by (simp_all add: schedules_def)
  have r1: "run_calls reflib ?a ?b [First, First, Second, Second] (AtGet, AtGet, demo_store) =
              (fst demo_serial, fst (snd demo_serial), snd (snd demo_serial))"
    by (simp add: demo_serial_def)
  have r2: "run_calls reflib ?a ?b [First, Second, First, Second] (AtGet, AtGet, demo_store) =
              (fst demo_race, fst (snd demo_race), snd (snd demo_race))"
    by (simp add: demo_race_def)
  from two_edit_calls [OF lk ne demo_ready ab cur rt s1 t r1]
       two_edit_calls [OF lk ne demo_ready ab cur rt s2 t r2]
  show ?thesis
    using lk demo_ready by (simp add: serial_def demo_paste_fields)
qed

text \<open>
  C2 as stated fails. Two calls of \<^verbatim>\<open>handleEditSave\<close> for the paste with one version, one
  sending \<^verbatim>\<open>print(2)\<close> and one sending \<^verbatim>\<open>print(3)\<close>, run so that both do their \<^verbatim>\<open>Get\<close>
  before either does its \<^verbatim>\<open>Put\<close>: both return their redirect, and the stored paste ends
  with two versions, not three; the version with \<^verbatim>\<open>print(2)\<close> is gone.
\<close>

theorem two_edit_calls_counterexample:
  "returned_ok (fst demo_race) \<and> returned_ok (fst (snd demo_race)) \<and>
   length (Versions demo_paste) = 1 \<and>
   map_option (map ZCode \<circ> Versions) (fmlookup (snd (snd demo_race)) ''YWFhYWFhYWE'') =
     Some [gzip_magic @ ''print(1)'', gzip_magic @ ''print(3)'']"
proof -
  let ?a = "demo_call ''print(2)'' ''bob''" and ?b = "demo_call ''print(3)'' ''carol''"
  let ?qa = "call_edit reflib ?a demo_paste" and ?qb = "call_edit reflib ?b demo_paste"
  let ?ra = "fst (handleEditSave_local reflib (call_req ?a) (call_now ?a) demo_paste)"
  let ?rb = "fst (handleEditSave_local reflib (call_req ?b) (call_now ?b) demo_paste)"
  have lk: "fmlookup demo_store (ID demo_paste) = Some demo_paste"
    by (simp add: demo_paste_fields demo_lookup)
  have ne: "Versions demo_paste \<noteq> []"
    by (simp add: demo_paste_fields)
  have ga: "accepted ?ra" "call_step reflib ?a AtGet demo_store = (AtPut ?ra ?qa, demo_store)"
    using call_step_AtGet [OF lk demo_ready(1) ne] by simp_all
  have gb: "accepted ?rb" "call_step reflib ?b AtGet demo_store = (AtPut ?rb ?qb, demo_store)"
    using call_step_AtGet [OF lk demo_ready(2) ne] by simp_all
  have race: "demo_race = (Returned ?ra, Returned ?rb, Put ?qb (Put ?qa demo_store))"
    by (simp add: demo_race_def ga gb)
  have vb: "map ZCode (Versions ?qb) = [gzip_magic @ ''print(1)'', gzip_magic @ ''print(3)'']"
    by (simp add: call_edit_Versions demo_call_code demo_paste_fields demo_codec)
  have "fmlookup (Put ?qb (Put ?qa demo_store)) ''YWFhYWFhYWE'' = Some ?qb"
    by (simp add: Put_def call_edit_frame demo_paste_fields)
  then show ?thesis
    using ga(1) gb(1) vb by (simp add: race returned_ok_def demo_paste_fields)
qed

section \<open>The round trip of the codec\<close>

text \<open>
  \<^verbatim>\<open>GzipEncode\<close> and \<^verbatim>\<open>GzipDecode\<close> add nothing to the library's writer and reader: where
  the reader accepts what the writer of level \<open>BestSpeed\<close> wrote for \<open>s\<close> and reads \<open>s\<close>
  back, decoding the encoding of \<open>s\<close> returns \<open>s\<close> and no error. Whether the reader does
  so is a property of \<^verbatim>\<open>compress/gzip\<close>.
\<close>

lemma GzipDecode_GzipEncode_if:
  assumes "gzip_NewReader L (gzip_Write L BestSpeed s) = Inr zr" and "io_ReadAll L zr = Inr s"
  shows "GzipDecode L (GzipEncode L s) = (s, None)"
  using assms by (simp add: GzipDecode_def GzipEncode_def)

end
